theory Spec2Isabelle
  imports Complex_Main "HOL-Library.Product_Lexorder"
begin

section \<open>JavaScript values, objects and errors\<close>

text \<open>
  The aggregation engine (class \<open>WikiUpdater\<close>, with the cache store \<open>DataManager\<close>) works on
  the values its sources hand back. A number is a double: \<open>NaN\<close>, an infinity, or the rational
  it denotes; what the arithmetic of doubles gives is the language's own and is taken from
  the environment below. A plain object is the list of its own enumerable string-keyed
  properties in the order of \<open>Object.keys\<close>, with unique keys; what it does not have itself
  it inherits from \<open>Object.prototype\<close>. Arrays, dates and functions are built-in objects:
  the model keeps the elements of an array, the time of a date and the name of a function,
  and asks the environment for their properties.
\<close>

datatype jsnum = NaN | Fin rat | PosInf | NegInf

datatype jsval =
    JUndefined
  | JNull
  | JBool bool
  | JNum jsnum
  | JStr string
  | JDate jsnum
  | JArr "jsval list"
  | JObj "(string \<times> jsval) list"
  | JFunction string

type_synonym record_t = "(string \<times> jsval) list"

text \<open>A thrown value is an \<open>Error\<close> object; the model keeps its message.\<close>

datatype js_error = JsError string

fun message :: "js_error \<Rightarrow> string" where
  "message (JsError m) = m"

text \<open>
  \<open>obj[key] = v\<close> on own properties: an existing key keeps its position and takes the new
  value, a new key is appended. (The language lists keys that are array indices before the
  others; no property below depends on the place of such a key.)
\<close>

fun setProp :: "('k \<times> 'v) list \<Rightarrow> 'k \<Rightarrow> 'v \<Rightarrow> ('k \<times> 'v) list" where
  "setProp [] k v = [(k, v)]"
| "setProp ((k', v') # ps) k v = (if k' = k then (k, v) # ps else (k', v') # setProp ps k v)"

text \<open>\<open>Object.keys(obj)\<close> of a plain object.\<close>

definition keys :: "('k \<times> 'v) list \<Rightarrow> 'k list" where
  "keys obj = map fst obj"

text \<open>
  The members of \<open>Object.prototype\<close>: its methods, and \<open>__proto__\<close>, which reads as
  \<open>Object.prototype\<close> itself, an object without enumerable properties.
\<close>

definition prototypeMethods :: "string list" where
  "prototypeMethods =
     [''constructor'', ''hasOwnProperty'', ''isPrototypeOf'', ''propertyIsEnumerable'',
      ''toLocaleString'', ''toString'', ''valueOf'', ''__defineGetter__'',
      ''__defineSetter__'', ''__lookupGetter__'', ''__lookupSetter__'']"

definition objectPrototype :: "string \<Rightarrow> jsval" where
  "objectPrototype k =
     (if k \<in> set prototypeMethods then JFunction k
      else if k = ''__proto__'' then JObj []
      else JUndefined)"

text \<open>\<open>obj[key]\<close> on a plain object: the own property, else the inherited member.\<close>

definition readOf :: "record_t \<Rightarrow> string \<Rightarrow> jsval" where
  "readOf ps k = (case map_of ps k of Some v \<Rightarrow> v | None \<Rightarrow> objectPrototype k)"

text \<open>
  \<open>obj[key] = v\<close> on a plain object. Where \<open>__proto__\<close> is not an own property the
  assignment goes to the setter of \<open>Object.prototype\<close>, which adds no property (for an
  object \<open>v\<close> it replaces the prototype, which the model does not keep).
\<close>

definition assignOwn :: "(string \<times> 'v) list \<Rightarrow> string \<Rightarrow> 'v \<Rightarrow> (string \<times> 'v) list" where
  "assignOwn ps k v =
     (if k = ''__proto__'' \<and> map_of ps k = None then ps else setProp ps k v)"

text \<open>Truthiness, as \<open>!x\<close>, \<open>x || y\<close> and \<open>if (x)\<close> read a value.\<close>

fun truthy :: "jsval \<Rightarrow> bool" where
  "truthy JUndefined = False"
| "truthy JNull = False"
| "truthy (JBool b) = b"
| "truthy (JNum NaN) = False"
| "truthy (JNum (Fin r)) = (r \<noteq> 0)"
| "truthy (JNum PosInf) = True"
| "truthy (JNum NegInf) = True"
| "truthy (JStr s) = (s \<noteq> [])"
| "truthy (JDate t) = True"
| "truthy (JArr xs) = True"
| "truthy (JObj ps) = True"
| "truthy (JFunction f) = True"

text \<open>\<open>try { body } catch (error) { handler }\<close> on results.\<close>

definition tryCatch :: "js_error + 'a \<Rightarrow> (js_error \<Rightarrow> js_error + 'a) \<Rightarrow> js_error + 'a" where
  "tryCatch body handler = (case body of Inl error \<Rightarrow> handler error | Inr v \<Rightarrow> Inr v)"

text \<open>\<open>Array.prototype.map\<close> with a callback that may throw.\<close>

fun mapItems :: "('a \<Rightarrow> js_error + 'b) \<Rightarrow> 'a list \<Rightarrow> js_error + 'b list" where
  "mapItems f [] = Inr []"
| "mapItems f (x # xs) =
     (case f x of
        Inl error \<Rightarrow> Inl error
      | Inr y \<Rightarrow> (case mapItems f xs of Inl error \<Rightarrow> Inl error | Inr ys \<Rightarrow> Inr (y # ys)))"

section \<open>Configuration, upstream adapters and the environment\<close>

text \<open>
  What a source hands back: \<open>None\<close> of \<open>raw_data option\<close> for \<open>null\<close> or \<open>undefined\<close>, an
  array of items, or a single value. An item is any value. A single value that is falsy or
  an array itself is read as the code reads the value. The items of an answer are values
  of their own, as the items of parsed JSON are: no object occurs twice in an answer.
\<close>

datatype raw_data = RawValue jsval | RawArray "jsval list"

text \<open>An entry of \<open>config.wikiSources\<close>.\<close>

record source_config =
  baseUrl :: string
  priority :: nat
  rateLimitMs :: int

text \<open>
  An upstream request is asynchronous I/O: it resolves or rejects, after some time. Its
  answer may depend on everything that happened before, so an adapter method takes the number
  of upstream requests made so far in the run.
\<close>

record 'a response =
  outcome :: "js_error + 'a"
  elapsed :: nat

record adapter =
  getLatestCards :: "nat \<Rightarrow> raw_data option response"
  getEvents :: "nat \<Rightarrow> raw_data option response"
  getEZAs :: "nat \<Rightarrow> raw_data option response"
  getDokkanEvents :: "nat \<Rightarrow> raw_data option response"
  getStoryEvents :: "nat \<Rightarrow> raw_data option response"
  getMissions :: "nat \<Rightarrow> raw_data option response"
  getItems :: "nat \<Rightarrow> raw_data option response"
  getGenericData :: "string \<Rightarrow> nat \<Rightarrow> raw_data option response"
  getSample :: "string \<Rightarrow> nat \<Rightarrow> nat \<Rightarrow> raw_data option response"
  getAvailableDataTypes :: "nat \<Rightarrow> string list response"

text \<open>
  What the updater is given and never changes: the source table of the configuration, the
  two adapters, whether the store accepts a write under a key, and the language's own:
  \<open>Date.parse(s)\<close>, \<open>parseFloat(v)\<close>, \<open>parseInt(v)\<close>, \<open>new Date(v).getTime()\<close>, \<open>String(v)\<close>,
  \<open>s.trim()\<close>; the sum, product and quotient of two doubles; and, for a value that is
  neither a plain object nor \<open>null\<close> nor \<open>undefined\<close>, what \<open>v[key]\<close> reads, what
  \<open>v[key] = x\<close> does to a built-in object, and \<open>Object.keys(v)\<close>.
\<close>

record env =
  wikiSources :: "(string \<times> source_config) list"
  fandomAPI :: adapter
  dokkanScraper :: adapter
  writeError :: "string \<Rightarrow> js_error option"
  Date_parse :: "string \<Rightarrow> jsnum"
  parseFloat :: "jsval \<Rightarrow> jsnum"
  parseInt :: "jsval \<Rightarrow> jsnum"
  Date_getTime :: "jsval \<Rightarrow> jsnum"
  toString :: "jsval \<Rightarrow> string"
  trim :: "string \<Rightarrow> string"
  fadd :: "jsnum \<Rightarrow> jsnum \<Rightarrow> jsnum"
  fmul :: "jsnum \<Rightarrow> jsnum \<Rightarrow> jsnum"
  fdiv :: "jsnum \<Rightarrow> jsnum \<Rightarrow> jsnum"
  memberOf :: "jsval \<Rightarrow> string \<Rightarrow> jsval"
  assignMember :: "jsval \<Rightarrow> string \<Rightarrow> jsval \<Rightarrow> js_error + jsval"
  ownKeys :: "jsval \<Rightarrow> string list"

section \<open>Property access\<close>

text \<open>
  \<open>item[field]\<close> as an expression: a \<open>TypeError\<close> on \<open>null\<close> and \<open>undefined\<close>.
\<close>

fun readField :: "env \<Rightarrow> jsval \<Rightarrow> string \<Rightarrow> js_error + jsval" where
  "readField env JUndefined k =
     Inl (JsError (''Cannot read properties of undefined (reading '' @ k @ '')''))"
| "readField env JNull k =
     Inl (JsError (''Cannot read properties of null (reading '' @ k @ '')''))"
| "readField env (JObj ps) k = Inr (readOf ps k)"
| "readField env v k = Inr (memberOf env v k)"

text \<open>
  \<open>item[field] = v\<close> in strict code, as a class body is: a \<open>TypeError\<close> on \<open>null\<close>,
  \<open>undefined\<close> and on a primitive value, which cannot take a property.
\<close>

fun writeField :: "env \<Rightarrow> jsval \<Rightarrow> string \<Rightarrow> jsval \<Rightarrow> js_error + jsval" where
  "writeField env JUndefined k v =
     Inl (JsError (''Cannot set properties of undefined (setting '' @ k @ '')''))"
| "writeField env JNull k v =
     Inl (JsError (''Cannot set properties of null (setting '' @ k @ '')''))"
| "writeField env (JObj ps) k v = Inr (JObj (assignOwn ps k v))"
| "writeField env (JBool b) k v = Inl (JsError (''Cannot create property '' @ k))"
| "writeField env (JNum n) k v = Inl (JsError (''Cannot create property '' @ k))"
| "writeField env (JStr s) k v = Inl (JsError (''Cannot create property '' @ k))"
| "writeField env item k v = assignMember env item k v"

text \<open>\<open>Object.keys(item)\<close>.\<close>

fun ownKeysOf :: "env \<Rightarrow> jsval \<Rightarrow> js_error + string list" where
  "ownKeysOf env JUndefined = Inl (JsError ''Cannot convert undefined or null to object'')"
| "ownKeysOf env JNull = Inl (JsError ''Cannot convert undefined or null to object'')"
| "ownKeysOf env (JObj ps) = Inr (keys ps)"
| "ownKeysOf env v = Inr (ownKeys env v)"

section \<open>Parser engine\<close>

text \<open>
  A parser configuration as in \<open>config.parsers\<close>: the required fields and, per field, a
  transformation, which may throw and may read the clock (\<open>new Date()\<close>), so it takes the
  current time. The static table's \<open>default\<close> entry is never removed, so
  the table is a default parser and the entries by data type.
\<close>

type_synonym transformation = "int \<Rightarrow> jsval \<Rightarrow> js_error + jsval"

record parser =
  requiredFields :: "string list"
  transformations :: "(string \<times> transformation) list"

record parsers_t =
  default :: parser
  byType :: "string \<rightharpoonup> parser"

text \<open>\<open>config.parsers[type]\<close>.\<close>

definition parsersLookup :: "parsers_t \<Rightarrow> string \<Rightarrow> parser option" where
  "parsersLookup ps t = (if t = ''default'' then Some (default ps) else byType ps t)"

text \<open>
  \<open>!config.parsers[type]\<close> is false also for a name that the table inherits from
  \<open>Object.prototype\<close>.
\<close>

definition hasParser :: "parsers_t \<Rightarrow> string \<Rightarrow> bool" where
  "hasParser ps t = (parsersLookup ps t \<noteq> None \<or> objectPrototype t \<noteq> JUndefined)"

text \<open>
  \<open>config.parsers[dataType] || config.parsers.default\<close> as \<open>parseData\<close> uses it. For a
  name inherited from \<open>Object.prototype\<close> this is a built-in object without
  \<open>requiredFields\<close> and \<open>transformations\<close>, so both loops are skipped.
\<close>

definition parserOf :: "parsers_t \<Rightarrow> string \<Rightarrow> parser" where
  "parserOf ps dataType =
     (case parsersLookup ps dataType of
        Some p \<Rightarrow> p
      | None \<Rightarrow>
          if objectPrototype dataType = JUndefined then default ps
          else \<lparr>requiredFields = [], transformations = []\<rparr>)"

text \<open>\<open>config.parsers[type] = p\<close>, for a key other than \<open>__proto__\<close>.\<close>

definition parsersStore :: "parsers_t \<Rightarrow> string \<Rightarrow> parser \<Rightarrow> parsers_t" where
  "parsersStore ps t p =
     (if t = ''default'' then ps\<lparr>default := p\<rparr> else ps\<lparr>byType := (byType ps)(t \<mapsto> p)\<rparr>)"

text \<open>\<open>getDefaultValueForField\<close>; \<open>new Date()\<close> is the current time \<open>now\<close>.\<close>

definition defaults :: "int \<Rightarrow> record_t" where
  "defaults now =
     [(''id'', JStr ''0''),
      (''name'', JStr ''Unknown''),
      (''title'', JStr ''Unknown''),
      (''description'', JStr ''''),
      (''startDate'', JDate (Fin (of_int now))),
      (''endDate'', JDate (Fin (of_int now))),
      (''type'', JStr ''Unknown''),
      (''rarity'', JStr ''N''),
      (''card_id'', JStr ''0''),
      (''atk'', JNum (Fin 0)),
      (''def'', JNum (Fin 0)),
      (''hp'', JNum (Fin 0)),
      (''stages'', JArr []),
      (''missions'', JArr []),
      (''items'', JArr [])]"

definition getDefaultValueForField :: "int \<Rightarrow> string \<Rightarrow> jsval" where
  "getDefaultValueForField now field =
     (if readOf (defaults now) field \<noteq> JUndefined then readOf (defaults now) field
      else JStr '''')"

text \<open>The loop over the required fields of \<open>parseData\<close>.\<close>

fun fillRequired :: "env \<Rightarrow> int \<Rightarrow> string list \<Rightarrow> jsval \<Rightarrow> js_error + jsval" where
  "fillRequired env now [] item = Inr item"
| "fillRequired env now (field # rest) item =
     (case readField env item field of
        Inl error \<Rightarrow> Inl error
      | Inr v \<Rightarrow>
          if v = JUndefined
          then
            (case writeField env item field (getDefaultValueForField now field) of
               Inl error \<Rightarrow> Inl error
             | Inr item' \<Rightarrow> fillRequired env now rest item')
          else fillRequired env now rest item)"

text \<open>
  The loop over \<open>Object.entries(parserConfig.transformations)\<close>: the test of the \<open>if\<close>
  stands outside the \<open>try\<close>, the call of the transformation and the assignment inside.
\<close>

fun applyTransformations ::
  "env \<Rightarrow> int \<Rightarrow> (string \<times> transformation) list \<Rightarrow> jsval \<Rightarrow> js_error + jsval" where
  "applyTransformations env now [] item = Inr item"
| "applyTransformations env now ((field, transform) # rest) item =
     (case readField env item field of
        Inl error \<Rightarrow> Inl error
      | Inr v \<Rightarrow>
          if v \<noteq> JUndefined
          then
            (case tryCatch
                    (case transform now v of
                       Inl error \<Rightarrow> Inl error
                     | Inr v' \<Rightarrow> writeField env item field v')
                    (\<lambda>error. Inr item) of
               Inl error \<Rightarrow> Inl error
             | Inr item' \<Rightarrow> applyTransformations env now rest item')
          else applyTransformations env now rest item)"

text \<open>The callback of \<open>dataArray.map\<close>.\<close>

definition parseItem :: "env \<Rightarrow> int \<Rightarrow> parser \<Rightarrow> jsval \<Rightarrow> js_error + jsval" where
  "parseItem env now parserConfig item =
     (case fillRequired env now (requiredFields parserConfig) item of
        Inl error \<Rightarrow> Inl error
      | Inr item' \<Rightarrow> applyTransformations env now (transformations parserConfig) item')"

text \<open>\<open>Array.isArray(rawData) ? rawData : [rawData]\<close>.\<close>

fun dataArray :: "raw_data \<Rightarrow> jsval list" where
  "dataArray (RawArray xs) = xs"
| "dataArray (RawValue (JArr xs)) = xs"
| "dataArray (RawValue item) = [item]"

definition parseData ::
  "env \<Rightarrow> parsers_t \<Rightarrow> int \<Rightarrow> string \<Rightarrow> raw_data \<Rightarrow> string \<Rightarrow> js_error + jsval list" where
  "parseData env ps now dataType rawData source =
     (let parserConfig = parserOf ps dataType
      in mapItems (parseItem env now parserConfig) (dataArray rawData))"

section \<open>The updater's state\<close>

text \<open>
  The value \<open>{data, timestamp, source}\<close> kept in the store under a data type's key. The
  store keeps it as JSON text, which preserves the timestamp and the length of \<open>data\<close>.
\<close>

record cache_entry =
  data :: "jsval list"
  timestamp :: int
  entrySource :: string

text \<open>The log of the upstream requests made so far: data fetches, samples, type lists.\<close>

datatype call = Fetch string string | Sample string string | Types string

text \<open>
  The state: the clock read by \<open>Date.now()\<close>, the updater's \<open>lastRequestTime\<close> and
  \<open>sourcePriorities\<close>, the mutable parts of the configuration (\<open>config.parsers\<close> and
  \<open>config.dataTypes\<close>, a data type with its \<open>cacheTtl\<close>), the store as \<open>getCachedData\<close> and
  \<open>cacheData\<close> present it, and the log.
\<close>

record world =
  clock :: int
  lastRequestTime :: "string \<rightharpoonup> int"
  sourcePriorities :: "string \<rightharpoonup> string list"
  parsers :: parsers_t
  dataTypes :: "(string \<times> int) list"
  cache :: "string \<rightharpoonup> cache_entry"
  calls :: "call list"

section \<open>Prioritized fetch\<close>

text \<open>
  \<open>respectRateLimit\<close>: a source without configuration is not limited; otherwise the call
  waits until \<open>rateLimitMs\<close> have passed since the recorded request. The timer is taken to
  fire after exactly the delay.
\<close>

definition respectRateLimit :: "env \<Rightarrow> string \<Rightarrow> world \<Rightarrow> world" where
  "respectRateLimit env source w =
     (case map_of (wikiSources env) source of
        None \<Rightarrow> w
      | Some sourceConfig \<Rightarrow>
          (let lastRequest = (case lastRequestTime w source of None \<Rightarrow> 0 | Some t \<Rightarrow> t);
               elapsedMs = clock w - lastRequest;
               delay = rateLimitMs sourceConfig - elapsedMs
           in if delay > 0 then w\<lparr>clock := clock w + delay\<rparr> else w))"

type_synonym fetchFn = "string \<Rightarrow> nat \<Rightarrow> raw_data option response"

text \<open>The array \<open>parsedData\<close> with its two added properties.\<close>

record parsed_data =
  items :: "jsval list"
  sourceTag :: string
  fetchTime :: int

text \<open>\<open>Array.isArray(rawData) && rawData.length === 0\<close>, and \<open>!rawData\<close>.\<close>

fun isEmptyArray :: "raw_data \<Rightarrow> bool" where
  "isEmptyArray (RawArray xs) = (xs = [])"
| "isEmptyArray (RawValue (JArr xs)) = (xs = [])"
| "isEmptyArray (RawValue v) = False"

fun falsy :: "raw_data \<Rightarrow> bool" where
  "falsy (RawArray xs) = False"
| "falsy (RawValue v) = (\<not> truthy v)"

text \<open>
  The loop of \<open>getDataFromPrioritizedSources\<close> over the remaining sources; \<open>lastError\<close> is
  \<open>None\<close> for \<open>null\<close>. The \<open>catch\<close> takes what the fetch throws and what \<open>parseData\<close>
  throws alike.
\<close>

fun trySources ::
  "env \<Rightarrow> string \<Rightarrow> fetchFn \<Rightarrow> string list \<Rightarrow> js_error option \<Rightarrow> world
     \<Rightarrow> (js_error + parsed_data) \<times> world" where
  "trySources env dataType fetchFn [] lastError w =
     (case lastError of
        Some e \<Rightarrow>
          (Inl (JsError (''Failed to fetch '' @ dataType @ '' from all sources: '' @ message e)), w)
      | None \<Rightarrow>
          (Inl (JsError (''Failed to fetch '' @ dataType @ '' from all sources'')), w))"
| "trySources env dataType fetchFn (source # rest) lastError w =
     (let w1 = respectRateLimit env source w;
          r = fetchFn source (length (calls w1));
          w2 = w1\<lparr>calls := calls w1 @ [Fetch dataType source],
                  clock := clock w1 + int (elapsed r)\<rparr>
      in case outcome r of
           Inl error \<Rightarrow> trySources env dataType fetchFn rest (Some error) w2
         | Inr rawData \<Rightarrow>
             (let w3 = w2\<lparr>lastRequestTime := (lastRequestTime w2)(source \<mapsto> clock w2)\<rparr>
              in case rawData of
                   None \<Rightarrow> trySources env dataType fetchFn rest lastError w3
                 | Some raw \<Rightarrow>
                     if falsy raw \<or> isEmptyArray raw
                     then trySources env dataType fetchFn rest lastError w3
                     else
                       (case parseData env (parsers w3) (clock w3) dataType raw source of
                          Inl error \<Rightarrow> trySources env dataType fetchFn rest (Some error) w3
                        | Inr parsedItems \<Rightarrow>
                            (Inr \<lparr>items = parsedItems, sourceTag = source,
                                  fetchTime = clock w3\<rparr>, w3))))"

text \<open>
  \<open>getDataFromPrioritizedSources\<close>. For a data type without a list that bears the name of a
  member of \<open>Object.prototype\<close>, \<open>this.sourcePriorities[dataType]\<close> is the inherited
  member: it passes the first test unless it is a function of no parameters, and the loop
  throws at once, since the member is not iterable.
\<close>

definition getDataFromPrioritizedSources ::
  "env \<Rightarrow> string \<Rightarrow> fetchFn \<Rightarrow> world \<Rightarrow> (js_error + parsed_data) \<times> world" where
  "getDataFromPrioritizedSources env dataType fetchFn w =
     (case sourcePriorities w dataType of
        None \<Rightarrow>
          if objectPrototype dataType = JUndefined \<or>
             dataType \<in> set [''toLocaleString'', ''toString'', ''valueOf'']
          then (Inl (JsError (''No source priorities defined for data type: '' @ dataType)), w)
          else (Inl (JsError ''priorities is not iterable''), w)
      | Some priorities \<Rightarrow>
          if priorities = []
          then (Inl (JsError (''No source priorities defined for data type: '' @ dataType)), w)
          else trySources env dataType fetchFn priorities None w)"

text \<open>The helper methods: one adapter method per data type and source.\<close>

definition getLatestCardsFromBestSource ::
  "env \<Rightarrow> world \<Rightarrow> (js_error + parsed_data) \<times> world" where
  "getLatestCardsFromBestSource env =
     getDataFromPrioritizedSources env ''cards''
       (\<lambda>source. if source = ''fandom'' then getLatestCards (fandomAPI env)
                 else getLatestCards (dokkanScraper env))"

definition getEventsFromBestSource ::
  "env \<Rightarrow> world \<Rightarrow> (js_error + parsed_data) \<times> world" where
  "getEventsFromBestSource env =
     getDataFromPrioritizedSources env ''events''
       (\<lambda>source. if source = ''fandom'' then getEvents (fandomAPI env)
                 else getEvents (dokkanScraper env))"

definition getEZAsFromBestSource ::
  "env \<Rightarrow> world \<Rightarrow> (js_error + parsed_data) \<times> world" where
  "getEZAsFromBestSource env =
     getDataFromPrioritizedSources env ''ezas''
       (\<lambda>source. if source = ''fandom'' then getEZAs (fandomAPI env)
                 else getEZAs (dokkanScraper env))"

definition getDokkanEventsFromBestSource ::
  "env \<Rightarrow> world \<Rightarrow> (js_error + parsed_data) \<times> world" where
  "getDokkanEventsFromBestSource env =
     getDataFromPrioritizedSources env ''dokkanEvents''
       (\<lambda>source. if source = ''fandom'' then getDokkanEvents (fandomAPI env)
                 else getDokkanEvents (dokkanScraper env))"

definition getStoryEventsFromBestSource ::
  "env \<Rightarrow> world \<Rightarrow> (js_error + parsed_data) \<times> world" where
  "getStoryEventsFromBestSource env =
     getDataFromPrioritizedSources env ''storyEvents''
       (\<lambda>source. if source = ''fandom'' then getStoryEvents (fandomAPI env)
                 else getStoryEvents (dokkanScraper env))"

definition getMissionsFromBestSource ::
  "env \<Rightarrow> world \<Rightarrow> (js_error + parsed_data) \<times> world" where
  "getMissionsFromBestSource env =
     getDataFromPrioritizedSources env ''missions''
       (\<lambda>source. if source = ''fandom'' then getMissions (fandomAPI env)
                 else getMissions (dokkanScraper env))"

definition getItemsFromBestSource ::
  "env \<Rightarrow> world \<Rightarrow> (js_error + parsed_data) \<times> world" where
  "getItemsFromBestSource env =
     getDataFromPrioritizedSources env ''items''
       (\<lambda>source. if source = ''fandom'' then getItems (fandomAPI env)
                 else getItems (dokkanScraper env))"

definition getGenericDataFromBestSource ::
  "env \<Rightarrow> string \<Rightarrow> world \<Rightarrow> (js_error + parsed_data) \<times> world" where
  "getGenericDataFromBestSource env dataType =
     getDataFromPrioritizedSources env dataType
       (\<lambda>source. if source = ''fandom'' then getGenericData (fandomAPI env) dataType
                 else getGenericData (dokkanScraper env) dataType)"

section \<open>Learning a parser\<close>

text \<open>\<open>allFields.add(field)\<close> on a \<open>Set\<close>, which keeps insertion order.\<close>

definition addField :: "string list \<Rightarrow> string \<Rightarrow> string list" where
  "addField allFields field = (if field \<in> set allFields then allFields else allFields @ [field])"

text \<open>First pass: collect all fields. \<open>Object.keys\<close> throws on \<open>null\<close>.\<close>

fun collectInto :: "env \<Rightarrow> string list \<Rightarrow> jsval list \<Rightarrow> js_error + string list" where
  "collectInto env allFields [] = Inr allFields"
| "collectInto env allFields (item # rest) =
     (case ownKeysOf env item of
        Inl error \<Rightarrow> Inl error
      | Inr ks \<Rightarrow> collectInto env (foldl addField allFields ks) rest)"

definition collectFields :: "env \<Rightarrow> jsval list \<Rightarrow> js_error + string list" where
  "collectFields env sampleData = collectInto env [] sampleData"

text \<open>The chain of type tests on a value that is not \<open>undefined\<close>.\<close>

fun inferType :: "env \<Rightarrow> jsval \<Rightarrow> string" where
  "inferType env (JNum n) = ''number''"
| "inferType env (JBool b) = ''boolean''"
| "inferType env (JDate t) = ''date''"
| "inferType env (JArr xs) = ''array''"
| "inferType env (JStr s) = (if Date_parse env s \<noteq> NaN then ''date'' else ''string'')"
| "inferType env (JObj ps) = ''object''"
| "inferType env JNull = ''string''"
| "inferType env JUndefined = ''string''"
| "inferType env (JFunction f) = ''string''"

text \<open>
  The body of the inner \<open>allFields.forEach\<close> of the second pass, on the pair of
  \<open>commonFields\<close> and \<open>fieldTypes\<close>, two plain objects used as tables:
  \<open>commonFields[field]++\<close>, and \<open>!fieldTypes[field]\<close>, which a name inherited from
  \<open>Object.prototype\<close> never passes.
\<close>

definition countField ::
  "env \<Rightarrow> jsval \<Rightarrow> (string \<times> nat) list \<times> (string \<times> string) list \<Rightarrow> string
     \<Rightarrow> js_error + (string \<times> nat) list \<times> (string \<times> string) list" where
  "countField env item st field =
     (case st of (commonFields, fieldTypes) \<Rightarrow>
        (case readField env item field of
           Inl error \<Rightarrow> Inl error
         | Inr value \<Rightarrow>
             if value \<noteq> JUndefined
             then
               Inr (assignOwn commonFields field
                      (Suc (case map_of commonFields field of None \<Rightarrow> 0 | Some c \<Rightarrow> c)),
                    if map_of fieldTypes field = None \<and> objectPrototype field = JUndefined
                    then assignOwn fieldTypes field (inferType env value)
                    else fieldTypes)
             else Inr st))"

text \<open>A \<open>forEach\<close> whose callback may throw, on a state.\<close>

fun forEach :: "('s \<Rightarrow> 'a \<Rightarrow> js_error + 's) \<Rightarrow> 's \<Rightarrow> 'a list \<Rightarrow> js_error + 's" where
  "forEach f st [] = Inr st"
| "forEach f st (x # xs) =
     (case f st x of Inl error \<Rightarrow> Inl error | Inr st' \<Rightarrow> forEach f st' xs)"

text \<open>
  The initialisation \<open>commonFields[field] = 0\<close> for all fields, and the second pass: count
  field occurrence and infer types.
\<close>

definition countFields ::
  "env \<Rightarrow> string list \<Rightarrow> jsval list
     \<Rightarrow> js_error + (string \<times> nat) list \<times> (string \<times> string) list" where
  "countFields env allFields sampleData =
     forEach (\<lambda>st item. forEach (countField env item) st allFields)
       (foldl (\<lambda>commonFields field. assignOwn commonFields field 0) [] allFields, [])
       sampleData"

text \<open>One transformation per inferred type, the \<open>switch\<close> of the third step.\<close>

definition transformationFor :: "env \<Rightarrow> string \<Rightarrow> transformation" where
  "transformationFor env type =
     (if type = ''number'' then
        (\<lambda>now value. let num = parseFloat env value
                      in Inr (JNum (if num = NaN then Fin 0 else num)))
      else if type = ''boolean'' then
        (\<lambda>now value. Inr (JBool (truthy value)))
      else if type = ''date'' then
        (\<lambda>now value. let date = Date_getTime env value
                      in Inr (JDate (if date = NaN then Fin (of_int now) else date)))
      else if type = ''array'' then
        (\<lambda>now value. Inr (case value of JArr xs \<Rightarrow> value | _ \<Rightarrow> JArr []))
      else if type = ''object'' then
        (\<lambda>now value. Inr (case value of
                               JObj ps \<Rightarrow> value
                             | JArr xs \<Rightarrow> value
                             | JDate t \<Rightarrow> value
                             | _ \<Rightarrow> JObj []))
      else
        (\<lambda>now value. Inr (JStr (toString env (if truthy value then value else JStr [])))))"

text \<open>
  The parser built from a sample that is not empty. The test is
  \<open>count >= sampleData.length * 0.75\<close>; the product is exact in a double for any length an
  array can have.
\<close>

definition learnedParser :: "env \<Rightarrow> jsval list \<Rightarrow> js_error + parser" where
  "learnedParser env sampleData =
     (case collectFields env sampleData of
        Inl error \<Rightarrow> Inl error
      | Inr allFields \<Rightarrow>
          (case countFields env allFields sampleData of
             Inl error \<Rightarrow> Inl error
           | Inr (commonFields, fieldTypes) \<Rightarrow>
               Inr \<lparr>requiredFields =
                      map fst (filter (\<lambda>(field, n).
                                 (of_nat n :: rat) \<ge> of_nat (length sampleData) * (3 / 4))
                               commonFields),
                    transformations =
                      map (\<lambda>(field, type). (field, transformationFor env type)) fieldTypes\<rparr>))"

definition learnParserForNewDataType ::
  "env \<Rightarrow> string \<Rightarrow> jsval list \<Rightarrow> world \<Rightarrow> (js_error + parser) \<times> world" where
  "learnParserForNewDataType env dataType sampleData w =
     (if sampleData = [] then (Inr (default (parsers w)), w)
      else
        (case learnedParser env sampleData of
           Inl error \<Rightarrow> (Inl error, w)
         | Inr newParser \<Rightarrow>
             (Inr newParser, w\<lparr>parsers := parsersStore (parsers w) dataType newParser\<rparr>)))"

text \<open>\<open>[...new Set(xs)]\<close>: the first occurrence of each element, in order.\<close>

definition dedup :: "string list \<Rightarrow> string list" where
  "dedup xs = foldl addField [] xs"

text \<open>
  The body of the loop of \<open>discoverAndCreateParsers\<close> over the new types, with its
  try/catch.
\<close>

definition learnNewType :: "env \<Rightarrow> world \<Rightarrow> string \<Rightarrow> world" where
  "learnNewType env w type =
     (case getDataFromPrioritizedSources env type
             (\<lambda>source. if source = ''fandom'' then getSample (fandomAPI env) type 10
                       else getSample (dokkanScraper env) type 10) w of
        (Inl error, w1) \<Rightarrow> w1
      | (Inr sampleData, w1) \<Rightarrow>
          (case learnParserForNewDataType env type (items sampleData) w1 of
             (Inl error, w2) \<Rightarrow> w2
           | (Inr newParser, w2) \<Rightarrow>
               if map_of (dataTypes w2) type = None
               then w2\<lparr>dataTypes := dataTypes w2 @ [(type, 3600000)]\<rparr>
               else w2))"

text \<open>
  One call of \<open>getAvailableDataTypes\<close>, a method the adapter is taken to have and to
  answer with an array of strings when it resolves, with \<open>.catch(() => [])\<close>.
\<close>

definition availableTypes :: "string \<Rightarrow> adapter \<Rightarrow> world \<Rightarrow> string list \<times> world" where
  "availableTypes source api w =
     (let r = getAvailableDataTypes api (length (calls w));
          w1 = w\<lparr>calls := calls w @ [Types source], clock := clock w + int (elapsed r)\<rparr>
      in (case outcome r of Inl error \<Rightarrow> [] | Inr types \<Rightarrow> types, w1))"

definition discoverAndCreateParsers :: "env \<Rightarrow> world \<Rightarrow> string list \<times> world" where
  "discoverAndCreateParsers env w =
     (case availableTypes ''fandom'' (fandomAPI env) w of
        (fandomTypes, w1) \<Rightarrow>
          (case availableTypes ''dokkanInfo'' (dokkanScraper env) w1 of
             (dokkanInfoTypes, w2) \<Rightarrow>
               (let allTypes = dedup (fandomTypes @ dokkanInfoTypes);
                    newTypes = filter (\<lambda>type. \<not> hasParser (parsers w2) type) allTypes
                in (newTypes, foldl (learnNewType env) w2 newTypes))))"

section \<open>Cache-aware update\<close>

text \<open>An entry of \<open>results\<close>.\<close>

record type_result =
  count :: nat
  fromCache :: bool
  resultSource :: "string option"
  errorMsg :: "string option"

text \<open>\<open>config.dataTypes[dataType]?.cacheTtl || 3600000\<close>.\<close>

definition cacheTtlOf :: "world \<Rightarrow> string \<Rightarrow> int" where
  "cacheTtlOf w dataType =
     (case map_of (dataTypes w) dataType of
        None \<Rightarrow> 3600000
      | Some cacheTtl \<Rightarrow> if cacheTtl = 0 then 3600000 else cacheTtl)"

text \<open>The \<open>switch\<close> on the data type.\<close>

definition fetchFresh :: "env \<Rightarrow> string \<Rightarrow> world \<Rightarrow> (js_error + parsed_data) \<times> world" where
  "fetchFresh env dataType w =
     (if dataType = ''cards'' then getLatestCardsFromBestSource env w
      else if dataType = ''events'' then getEventsFromBestSource env w
      else if dataType = ''ezas'' then getEZAsFromBestSource env w
      else if dataType = ''dokkanEvents'' then getDokkanEventsFromBestSource env w
      else if dataType = ''storyEvents'' then getStoryEventsFromBestSource env w
      else if dataType = ''missions'' then getMissionsFromBestSource env w
      else if dataType = ''items'' then getItemsFromBestSource env w
      else getGenericDataFromBestSource env dataType w)"

text \<open>\<open>dataManager.cacheData(key, entry)\<close> as the updater sees it: the write may fail.\<close>

definition cacheData :: "env \<Rightarrow> string \<Rightarrow> cache_entry \<Rightarrow> world \<Rightarrow> js_error + world" where
  "cacheData env key entry w =
     (case writeError env key of
        Some error \<Rightarrow> Inl error
      | None \<Rightarrow> Inr (w\<lparr>cache := (cache w)(key \<mapsto> entry)\<rparr>))"

text \<open>
  \<open>cachedData && Date.now() - cachedData.timestamp < cacheTtl\<close>: the entry when the test
  holds.
\<close>

definition validCache :: "world \<Rightarrow> string \<Rightarrow> cache_entry option" where
  "validCache w dataType =
     (case cache w dataType of
        None \<Rightarrow> None
      | Some cachedData \<Rightarrow>
          if clock w - timestamp cachedData < cacheTtlOf w dataType then Some cachedData
          else None)"

text \<open>
  The second half of the loop body of \<open>updateFromWiki\<close>: get fresh data, cache it, and give
  the entry for \<open>results\<close>, or the exception that leaves the loop.
\<close>

definition refreshDataType ::
  "env \<Rightarrow> string \<Rightarrow> world \<Rightarrow> (js_error + type_result) \<times> world" where
  "refreshDataType env dataType w =
     (case fetchFresh env dataType w of
        (Inl error, w1) \<Rightarrow> (Inl error, w1)
      | (Inr fresh, w1) \<Rightarrow>
          if items fresh \<noteq> []
          then
            (let src = (if sourceTag fresh = [] then ''unknown'' else sourceTag fresh)
             in case cacheData env dataType
                       \<lparr>data = items fresh, timestamp = clock w1, entrySource = src\<rparr> w1 of
                  Inl error \<Rightarrow> (Inl error, w1)
                | Inr w2 \<Rightarrow>
                    (Inr \<lparr>count = length (items fresh), fromCache = False,
                          resultSource = Some src, errorMsg = None\<rparr>, w2))
          else (Inr \<lparr>count = 0, fromCache = False, resultSource = None,
                      errorMsg = Some ''No data found''\<rparr>, w1))"

text \<open>The loop body of \<open>updateFromWiki\<close> for one data type.\<close>

definition updateDataType ::
  "env \<Rightarrow> string \<Rightarrow> world \<Rightarrow> (js_error + type_result) \<times> world" where
  "updateDataType env dataType w =
     (case validCache w dataType of
        Some cachedData \<Rightarrow>
          (Inr \<lparr>count = length (data cachedData), fromCache = True,
                resultSource = None, errorMsg = None\<rparr>, w)
      | None \<Rightarrow> refreshDataType env dataType w)"

text \<open>The loop over \<open>typesToUpdate\<close>; the first exception ends it.\<close>

fun updateTypes ::
  "env \<Rightarrow> string list \<Rightarrow> (string \<times> type_result) list \<Rightarrow> world
     \<Rightarrow> (js_error + (string \<times> type_result) list) \<times> world" where
  "updateTypes env [] results w = (Inr results, w)"
| "updateTypes env (dataType # rest) results w =
     (case updateDataType env dataType w of
        (Inl error, w1) \<Rightarrow> (Inl error, w1)
      | (Inr entry, w1) \<Rightarrow> updateTypes env rest (assignOwn results dataType entry) w1)"

text \<open>What \<open>updateFromWiki\<close> returns: \<open>{success, message, results}\<close> or \<open>{success, message}\<close>.\<close>

record update_result =
  success :: bool
  message_of :: string
  results_of :: "(string \<times> type_result) list option"

text \<open>\<open>updateFromWiki(dataTypes)\<close>; \<open>None\<close> is the default \<open>null\<close>.\<close>

definition updateFromWiki ::
  "env \<Rightarrow> string list option \<Rightarrow> world \<Rightarrow> update_result \<times> world" where
  "updateFromWiki env requested w =
     (let w1 = snd (discoverAndCreateParsers env w);
          typesToUpdate = (case requested of None \<Rightarrow> keys (dataTypes w1) | Some ts \<Rightarrow> ts)
      in case updateTypes env typesToUpdate [] w1 of
           (Inr results, w2) \<Rightarrow>
             (\<lparr>success = True, message_of = ''Wiki data updated successfully'',
               results_of = Some results\<rparr>, w2)
         | (Inl error, w2) \<Rightarrow>
             (\<lparr>success = False, message_of = message error, results_of = None\<rparr>, w2))"

section \<open>Freshness scores and source priorities\<close>

text \<open>\<open>xs.reduce((sum, x) => sum + x, 0)\<close> on doubles.\<close>

definition num_sum :: "env \<Rightarrow> jsnum list \<Rightarrow> jsnum" where
  "num_sum env xs = foldl (fadd env) (Fin 0) xs"

text \<open>\<open>a || b\<close>.\<close>

definition orElse :: "jsval \<Rightarrow> jsval \<Rightarrow> jsval" where
  "orElse a b = (if truthy a then a else b)"

text \<open>\<open>item.updatedAt || item.lastModified\<close>, which throws on \<open>null\<close>.\<close>

definition stampOf :: "env \<Rightarrow> jsval \<Rightarrow> js_error + jsval" where
  "stampOf env item =
     (case readField env item ''updatedAt'' of
        Inl error \<Rightarrow> Inl error
      | Inr updatedAt \<Rightarrow>
          if truthy updatedAt then Inr updatedAt else readField env item ''lastModified'')"

text \<open>\<open>Object.keys(item).length\<close>.\<close>

definition fieldCount :: "env \<Rightarrow> jsval \<Rightarrow> js_error + nat" where
  "fieldCount env item =
     (case ownKeysOf env item of Inl error \<Rightarrow> Inl error | Inr ks \<Rightarrow> Inr (length ks))"

text \<open>
  \<open>calculateFreshnessScore\<close> past its first line, on an array that is not empty. The three
  passes over the items throw at the first item they cannot read.
\<close>

definition scoreOfItems :: "env \<Rightarrow> jsval list \<Rightarrow> js_error + jsnum" where
  "scoreOfItems env xs =
     (case mapItems (stampOf env) xs of
        Inl error \<Rightarrow> Inl error
      | Inr stamps \<Rightarrow>
          (case mapItems (\<lambda>item. readField env item ''version'') xs of
             Inl error \<Rightarrow> Inl error
           | Inr versionFields \<Rightarrow>
               (case mapItems (fieldCount env) xs of
                  Inl error \<Rightarrow> Inl error
                | Inr counts \<Rightarrow>
                    (let timestamps = map (Date_getTime env) (filter truthy stamps);
                         score1 =
                           (if timestamps \<noteq> []
                            then fadd env (Fin 0)
                                   (fdiv env
                                      (fdiv env (num_sum env timestamps)
                                         (Fin (of_nat (length timestamps))))
                                      (Fin 1000000))
                            else Fin 0);
                         versions = map (parseFloat env) (filter truthy versionFields);
                         score2 =
                           (if versions \<noteq> []
                            then fadd env score1
                                   (fmul env
                                      (fdiv env (num_sum env versions)
                                         (Fin (of_nat (length versions))))
                                      (Fin 1000))
                            else score1);
                         completeness =
                           fdiv env (num_sum env (map (\<lambda>n. Fin (of_nat n)) counts))
                             (Fin (of_nat (length xs)))
                     in Inr (fadd env score2 (fmul env completeness (Fin 10)))))))"

text \<open>
  \<open>calculateFreshnessScore(data)\<close>. A single value that is not an array is taken to have no
  \<open>filter\<close> method, so past the first line the call throws for it.
\<close>

fun scoreOfData :: "env \<Rightarrow> raw_data \<Rightarrow> js_error + jsnum" where
  "scoreOfData env (RawArray xs) = (if xs = [] then Inr (Fin 0) else scoreOfItems env xs)"
| "scoreOfData env (RawValue (JArr xs)) = (if xs = [] then Inr (Fin 0) else scoreOfItems env xs)"
| "scoreOfData env (RawValue v) =
     (if \<not> truthy v \<or> readField env v ''length'' = Inr (JNum (Fin 0)) then Inr (Fin 0)
      else Inl (JsError ''data.filter is not a function''))"

definition calculateFreshnessScore :: "env \<Rightarrow> raw_data option \<Rightarrow> js_error + jsnum" where
  "calculateFreshnessScore env sampleData =
     (case sampleData of None \<Rightarrow> Inr (Fin 0) | Some d \<Rightarrow> scoreOfData env d)"

text \<open>The body of the loop over the sources, on \<open>freshness\<close> and the state.\<close>

definition checkSource ::
  "env \<Rightarrow> string \<Rightarrow> (string \<times> jsnum) list \<times> world \<Rightarrow> string
     \<Rightarrow> (string \<times> jsnum) list \<times> world" where
  "checkSource env dataType st source =
     (case st of (freshness, w) \<Rightarrow>
        (let w1 = respectRateLimit env source w;
             r = (if source = ''fandom'' then getSample (fandomAPI env) dataType 5
                  else getSample (dokkanScraper env) dataType 5) (length (calls w1));
             w2 = w1\<lparr>calls := calls w1 @ [Sample dataType source],
                     clock := clock w1 + int (elapsed r)\<rparr>
         in case outcome r of
              Inl error \<Rightarrow> (assignOwn freshness source (Fin (- 1)), w2)
            | Inr sampleData \<Rightarrow>
                (let w3 = w2\<lparr>lastRequestTime := (lastRequestTime w2)(source \<mapsto> clock w2)\<rparr>
                 in case calculateFreshnessScore env sampleData of
                      Inl error \<Rightarrow> (assignOwn freshness source (Fin (- 1)), w3)
                    | Inr freshnessScore \<Rightarrow> (assignOwn freshness source freshnessScore, w3))))"

text \<open>\<open>score >= 0\<close>, false for \<open>NaN\<close>.\<close>

fun scoreGe0 :: "jsnum \<Rightarrow> bool" where
  "scoreGe0 (Fin r) = (r \<ge> 0)"
| "scoreGe0 PosInf = True"
| "scoreGe0 NegInf = False"
| "scoreGe0 NaN = False"

text \<open>
  The place of a score in descending order: the comparator \<open>scoreB - scoreA\<close> puts the
  greater score first and leaves equal scores, two infinities too, as they are.
\<close>

fun descKey :: "jsnum \<Rightarrow> int \<times> rat" where
  "descKey PosInf = (- 1, 0)"
| "descKey (Fin r) = (0, - r)"
| "descKey NegInf = (1, 0)"
| "descKey NaN = (0, 0)"

text \<open>
  The filter, the sort and the map that give \<open>newPriorities\<close>. \<open>Array.prototype.sort\<close> is
  stable, and on the entries left by the filter, none of them \<open>NaN\<close>, the comparator is an
  order, so the result is the stable sort on the place of the score.
\<close>

definition newPrioritiesOf :: "(string \<times> jsnum) list \<Rightarrow> string list" where
  "newPrioritiesOf freshness =
     map fst (sort_key (\<lambda>entry. descKey (snd entry))
                (filter (\<lambda>entry. scoreGe0 (snd entry)) freshness))"

text \<open>The body of the loop of \<open>updateSourcePriorities\<close> over the data types.\<close>

definition updateTypePriorities :: "env \<Rightarrow> world \<Rightarrow> string \<Rightarrow> world" where
  "updateTypePriorities env w dataType =
     (case foldl (checkSource env dataType) ([], w) (keys (wikiSources env)) of
        (freshness, w1) \<Rightarrow>
          (let newPriorities = newPrioritiesOf freshness
           in if newPriorities \<noteq> []
              then w1\<lparr>sourcePriorities := (sourcePriorities w1)(dataType \<mapsto> newPriorities)\<rparr>
              else w1))"

definition updateSourcePriorities :: "env \<Rightarrow> world \<Rightarrow> world" where
  "updateSourcePriorities env w = foldl (updateTypePriorities env) w (keys (dataTypes w))"

section \<open>Cache store\<close>

text \<open>
  \<open>DataManager\<close> keeps one file per key under its cache path. Reading a file fails when the
  file is missing or on an I/O error; \<open>JSON.parse\<close> is the language's own and may throw.
\<close>

record data_manager =
  basePath :: string
  cachePath :: string

record file_system =
  files :: "string \<rightharpoonup> string"
  readFault :: "string \<Rightarrow> js_error option"

text \<open>\<open>path.join(dir, name)\<close> for a file name without separators.\<close>

definition path_join :: "string \<Rightarrow> string \<Rightarrow> string" where
  "path_join dir name = dir @ ''/'' @ name"

text \<open>\<open>fs.readFile(filepath, 'utf8')\<close>.\<close>

definition readFile :: "file_system \<Rightarrow> string \<Rightarrow> js_error + string" where
  "readFile fs filepath =
     (case readFault fs filepath of
        Some error \<Rightarrow> Inl error
      | None \<Rightarrow>
          (case files fs filepath of
             None \<Rightarrow> Inl (JsError (''ENOENT: no such file or directory, open '' @ filepath))
           | Some content \<Rightarrow> Inr content))"

definition getCachedData ::
  "(string \<Rightarrow> js_error + jsval) \<Rightarrow> data_manager \<Rightarrow> file_system \<Rightarrow> string \<Rightarrow> js_error + jsval" where
  "getCachedData JSON_parse dm fs key =
     tryCatch
       (let filepath = path_join (cachePath dm) (key @ ''.json'')
        in case readFile fs filepath of
             Inl error \<Rightarrow> Inl error
           | Inr content \<Rightarrow> JSON_parse content)
       (\<lambda>error. Inr JNull)"

section \<open>The static configuration and the constructor\<close>

text \<open>The table \<open>config.parsers\<close> as the module defines it.\<close>

definition staticParsers :: "env \<Rightarrow> parsers_t" where
  "staticParsers env =
     \<lparr>default = \<lparr>requiredFields = [], transformations = []\<rparr>,
      byType =
        [''cards'' \<mapsto>
           \<lparr>requiredFields = [''name'', ''id'', ''type'', ''rarity''],
            transformations =
              [(''name'', \<lambda>now value. Inr (JStr (trim env (toString env value)))),
               (''id'', \<lambda>now value. Inr (JStr (toString env value))),
               (''atk'', \<lambda>now value. Inr (orElse (JNum (parseInt env value)) (JNum (Fin 0)))),
               (''def'', \<lambda>now value. Inr (orElse (JNum (parseInt env value)) (JNum (Fin 0)))),
               (''hp'', \<lambda>now value. Inr (orElse (JNum (parseInt env value)) (JNum (Fin 0))))]\<rparr>,
         ''events'' \<mapsto>
           \<lparr>requiredFields = [''title'', ''startDate'', ''endDate''],
            transformations =
              [(''startDate'', \<lambda>now value. Inr (JDate (Date_getTime env value))),
               (''endDate'', \<lambda>now value. Inr (JDate (Date_getTime env value)))]\<rparr>,
         ''ezas'' \<mapsto>
           \<lparr>requiredFields = [''name'', ''card_id''],
            transformations =
              [(''stages'', \<lambda>now value. Inr (case value of JArr xs \<Rightarrow> value | _ \<Rightarrow> JArr []))]\<rparr>]\<rparr>"

text \<open>\<open>config.wikiSources\<close> and \<open>config.dataTypes\<close>.\<close>

definition staticWikiSources :: "(string \<times> source_config) list" where
  "staticWikiSources =
     [(''fandom'', \<lparr>baseUrl = ''https://dbz-dokkanbattle.fandom.com'', priority = 1,
                     rateLimitMs = 1000\<rparr>),
      (''dokkanInfo'', \<lparr>baseUrl = ''https://dokkaninfo.com'', priority = 2,
                         rateLimitMs = 1500\<rparr>)]"

definition staticDataTypes :: "(string \<times> int) list" where
  "staticDataTypes =
     [(''cards'', 3600000), (''events'', 1800000), (''ezas'', 3600000),
      (''dokkanEvents'', 3600000), (''storyEvents'', 3600000), (''missions'', 3600000),
      (''items'', 7200000)]"

text \<open>The state after the constructor, at time \<open>now\<close> and with an empty store.\<close>

definition newWikiUpdater :: "env \<Rightarrow> int \<Rightarrow> world" where
  "newWikiUpdater env now =
     \<lparr>clock = now,
      lastRequestTime = [''fandom'' \<mapsto> 0, ''dokkanInfo'' \<mapsto> 0],
      sourcePriorities =
        [''cards'' \<mapsto> [''fandom'', ''dokkanInfo''],
         ''events'' \<mapsto> [''dokkanInfo'', ''fandom''],
         ''ezas'' \<mapsto> [''fandom'', ''dokkanInfo''],
         ''dokkanEvents'' \<mapsto> [''dokkanInfo'', ''fandom''],
         ''storyEvents'' \<mapsto> [''fandom'', ''dokkanInfo''],
         ''missions'' \<mapsto> [''dokkanInfo'', ''fandom''],
         ''items'' \<mapsto> [''fandom'', ''dokkanInfo'']],
      parsers = staticParsers env,
      dataTypes = staticDataTypes,
      cache = Map.empty,
      calls = []\<rparr>"
section \<open>Notions used to state the properties\<close>

text \<open>
  The value of a field of a plain object after \<open>parseData\<close>, in the words of the
  specification: a required field that reads \<open>undefined\<close> takes the default; a field with a
  transformation takes the transformed value, or keeps its value when the transformation
  throws; any other field is unchanged.
\<close>

definition filledField :: "int \<Rightarrow> parser \<Rightarrow> record_t \<Rightarrow> string \<Rightarrow> jsval" where
  "filledField now p x f =
     (if f \<in> set (requiredFields p) \<and> readOf x f = JUndefined
      then getDefaultValueForField now f else readOf x f)"

definition transformedValue :: "int \<Rightarrow> transformation option \<Rightarrow> jsval \<Rightarrow> jsval" where
  "transformedValue now t v =
     (case t of
        None \<Rightarrow> v
      | Some transform \<Rightarrow>
          if v = JUndefined then v
          else (case transform now v of Inl error \<Rightarrow> v | Inr v' \<Rightarrow> v'))"

definition parsedField :: "int \<Rightarrow> parser \<Rightarrow> record_t \<Rightarrow> string \<Rightarrow> jsval" where
  "parsedField now p x f =
     transformedValue now (map_of (transformations p) f) (filledField now p x f)"

text \<open>
  An attempt fails when the fetch throws or yields a falsy or empty result. The attempts of
  one prioritized fetch are the sources in order, the first being upstream request number
  \<open>n\<close> of the run.
\<close>

definition failedAttempt :: "js_error + raw_data option \<Rightarrow> bool" where
  "failedAttempt result =
     (case result of
        Inl error \<Rightarrow> True
      | Inr None \<Rightarrow> True
      | Inr (Some raw) \<Rightarrow> falsy raw \<or> isEmptyArray raw)"

fun attempts :: "fetchFn \<Rightarrow> nat \<Rightarrow> string list \<Rightarrow> (js_error + raw_data option) list" where
  "attempts fetchFn n [] = []"
| "attempts fetchFn n (source # rest) = outcome (fetchFn source n) # attempts fetchFn (Suc n) rest"

text \<open>The last error thrown in a list of results, and the error for exhausted sources.\<close>

fun lastThrown :: "js_error option \<Rightarrow> (js_error + 'a) list \<Rightarrow> js_error option" where
  "lastThrown seen [] = seen"
| "lastThrown seen (Inl error # rest) = lastThrown (Some error) rest"
| "lastThrown seen (Inr v # rest) = lastThrown seen rest"

definition exhaustedError :: "string \<Rightarrow> js_error option \<Rightarrow> js_error" where
  "exhaustedError dataType lastError =
     (case lastError of
        None \<Rightarrow> JsError (''Failed to fetch '' @ dataType @ '' from all sources'')
      | Some e \<Rightarrow>
          JsError (''Failed to fetch '' @ dataType @ '' from all sources: '' @ message e))"

text \<open>
  Data that \<open>parseData\<close> throws on, and data it returns for, whatever the time. An attempt
  is rejected when it fails or its data makes \<open>parseData\<close> throw.
\<close>

definition parseThrows :: "env \<Rightarrow> parsers_t \<Rightarrow> string \<Rightarrow> raw_data \<Rightarrow> string \<Rightarrow> bool" where
  "parseThrows env ps dataType raw source =
     (\<forall>now. isl (parseData env ps now dataType raw source))"

definition parseReturns :: "env \<Rightarrow> parsers_t \<Rightarrow> string \<Rightarrow> raw_data \<Rightarrow> string \<Rightarrow> bool" where
  "parseReturns env ps dataType raw source =
     (\<forall>now. \<not> isl (parseData env ps now dataType raw source))"

definition rejectedAttempt ::
  "env \<Rightarrow> parsers_t \<Rightarrow> string \<Rightarrow> string \<Rightarrow> js_error + raw_data option \<Rightarrow> bool" where
  "rejectedAttempt env ps dataType source result =
     (case result of
        Inl error \<Rightarrow> True
      | Inr None \<Rightarrow> True
      | Inr (Some raw) \<Rightarrow>
          falsy raw \<or> isEmptyArray raw \<or> parseThrows env ps dataType raw source)"

fun allRejected ::
  "env \<Rightarrow> parsers_t \<Rightarrow> string \<Rightarrow> fetchFn \<Rightarrow> nat \<Rightarrow> string list \<Rightarrow> bool" where
  "allRejected env ps dataType fetchFn n [] = True"
| "allRejected env ps dataType fetchFn n (source # rest) =
     (rejectedAttempt env ps dataType source (outcome (fetchFn source n)) \<and>
      allRejected env ps dataType fetchFn (Suc n) rest)"

text \<open>
  The field names of a list of plain objects, and the number of them in which a field is
  present: the object has the field, with a value that is not \<open>undefined\<close>.
\<close>

definition fieldNames :: "record_t list \<Rightarrow> string set" where
  "fieldNames samples = (\<Union>item \<in> set samples. set (keys item))"

definition present :: "record_t \<Rightarrow> string \<Rightarrow> bool" where
  "present item field =
     (case map_of item field of None \<Rightarrow> False | Some value \<Rightarrow> value \<noteq> JUndefined)"

definition occurrences :: "record_t list \<Rightarrow> string \<Rightarrow> nat" where
  "occurrences samples field = length (filter (\<lambda>item. present item field) samples)"

text \<open>The counters of the second pass alone.\<close>

definition bump :: "record_t \<Rightarrow> (string \<times> nat) list \<Rightarrow> string \<Rightarrow> (string \<times> nat) list" where
  "bump item cf f =
     (if readOf item f \<noteq> JUndefined
      then assignOwn cf f (Suc (case map_of cf f of None \<Rightarrow> 0 | Some c \<Rightarrow> c)) else cf)"

text \<open>
  The sample fetches of one rescoring cycle, the first being upstream request number \<open>n\<close>:
  their results, and the score each source gets.
\<close>

definition sampleOutcome :: "env \<Rightarrow> string \<Rightarrow> string \<Rightarrow> nat \<Rightarrow> js_error + raw_data option" where
  "sampleOutcome env dataType source n =
     outcome ((if source = ''fandom'' then getSample (fandomAPI env) dataType 5
               else getSample (dokkanScraper env) dataType 5) n)"

definition probeScore :: "env \<Rightarrow> js_error + raw_data option \<Rightarrow> jsnum" where
  "probeScore env result =
     (case result of
        Inl error \<Rightarrow> Fin (- 1)
      | Inr sampleData \<Rightarrow>
          (case calculateFreshnessScore env sampleData of
             Inl error \<Rightarrow> Fin (- 1)
           | Inr freshnessScore \<Rightarrow> freshnessScore))"


fun probes :: "env \<Rightarrow> string \<Rightarrow> nat \<Rightarrow> string list \<Rightarrow> (js_error + raw_data option) list" where
  "probes env dataType n [] = []"
| "probes env dataType n (source # rest) =
     sampleOutcome env dataType source n # probes env dataType (Suc n) rest"



text \<open>
  The fields that the first pass collects from plain objects, and the counters after the
  second pass over them.
\<close>

definition collected :: "record_t list \<Rightarrow> string list" where
  "collected samples = foldl (\<lambda>allFields item. foldl addField allFields (keys item)) [] samples"

definition counted :: "record_t list \<Rightarrow> (string \<times> nat) list" where
  "counted samples =
     foldl (\<lambda>commonFields item. foldl (bump item) commonFields (collected samples))
       (foldl (\<lambda>commonFields field. assignOwn commonFields field 0) [] (collected samples))
       samples"


section \<open>Sample runs\<close>

text \<open>
  Concrete adapters and inputs for the evaluations below. A data method that the adapter
  class does not define throws at once; \<open>getAvailableDataTypes\<close> is there and rejects. The
  stand-ins for the language's functions are exact on the values these runs pass to them:
  strings that are neither numbers nor dates, dates, and small whole numbers, whose sums,
  products and quotients here are doubles without rounding.
\<close>

definition notAFunction :: "'a response" where
  "notAFunction = \<lparr>outcome = Inl (JsError ''is not a function''), elapsed = 0\<rparr>"

definition bareAdapter :: adapter where
  "bareAdapter =
     \<lparr>getLatestCards = (\<lambda>n. notAFunction), getEvents = (\<lambda>n. notAFunction),
      getEZAs = (\<lambda>n. notAFunction), getDokkanEvents = (\<lambda>n. notAFunction),
      getStoryEvents = (\<lambda>n. notAFunction), getMissions = (\<lambda>n. notAFunction),
      getItems = (\<lambda>n. notAFunction), getGenericData = (\<lambda>t n. notAFunction),
      getSample = (\<lambda>t k n. notAFunction),
      getAvailableDataTypes =
        (\<lambda>n. \<lparr>outcome = Inl (JsError ''Service unavailable''), elapsed = 0\<rparr>)\<rparr>"

fun exactAdd :: "jsnum \<Rightarrow> jsnum \<Rightarrow> jsnum" where
  "exactAdd (Fin a) (Fin b) = Fin (a + b)"
| "exactAdd a b = NaN"

fun exactMul :: "jsnum \<Rightarrow> jsnum \<Rightarrow> jsnum" where
  "exactMul (Fin a) (Fin b) = Fin (a * b)"
| "exactMul a b = NaN"

fun exactDiv :: "jsnum \<Rightarrow> jsnum \<Rightarrow> jsnum" where
  "exactDiv (Fin a) (Fin b) = (if b = 0 then NaN else Fin (a / b))"
| "exactDiv a b = NaN"

definition plainEnv :: "adapter \<Rightarrow> adapter \<Rightarrow> env" where
  "plainEnv fandom dokkan =
     \<lparr>wikiSources = staticWikiSources,
      fandomAPI = fandom,
      dokkanScraper = dokkan,
      writeError = (\<lambda>key. None),
      Date_parse = (\<lambda>s. NaN),
      parseFloat = (\<lambda>v. case v of JNum n \<Rightarrow> n | _ \<Rightarrow> NaN),
      parseInt = (\<lambda>v. case v of JNum n \<Rightarrow> n | _ \<Rightarrow> NaN),
      Date_getTime = (\<lambda>v. case v of JDate t \<Rightarrow> t | JNum n \<Rightarrow> n | _ \<Rightarrow> NaN),
      toString = (\<lambda>v. case v of JStr s \<Rightarrow> s | _ \<Rightarrow> []),
      trim = (\<lambda>s. s),
      fadd = exactAdd,
      fmul = exactMul,
      fdiv = exactDiv,
      memberOf = (\<lambda>v k. JUndefined),
      assignMember = (\<lambda>v k x. Inr v),
      ownKeys = (\<lambda>v. [])\<rparr>"

text \<open>
  The card list: fandom answers with an error after 120 ms, dokkanInfo with one record
  after 80 ms.
\<close>

definition fallbackEnv :: env where
  "fallbackEnv =
     plainEnv
       (bareAdapter\<lparr>getLatestCards :=
          (\<lambda>n. \<lparr>outcome = Inl (JsError ''Fandom API error: 500''), elapsed = 120\<rparr>)\<rparr>)
       (bareAdapter\<lparr>getLatestCards :=
          (\<lambda>n. \<lparr>outcome = Inr (Some (RawArray [JObj [(''name'', JStr ''X'')]])),
                 elapsed = 80\<rparr>)\<rparr>)"

definition cardsFetchFn :: "env \<Rightarrow> fetchFn" where
  "cardsFetchFn env =
     (\<lambda>source. if source = ''fandom'' then getLatestCards (fandomAPI env)
               else getLatestCards (dokkanScraper env))"

text \<open>
  The card list when fandom answers with the array \<open>[null]\<close> and dokkanInfo with one
  record.
\<close>

definition nullItemEnv :: env where
  "nullItemEnv =
     plainEnv
       (bareAdapter\<lparr>getLatestCards :=
          (\<lambda>n. \<lparr>outcome = Inr (Some (RawArray [JNull])), elapsed = 120\<rparr>)\<rparr>)
       (bareAdapter\<lparr>getLatestCards :=
          (\<lambda>n. \<lparr>outcome = Inr (Some (RawArray [JObj [(''name'', JStr ''X'')]])),
                 elapsed = 80\<rparr>)\<rparr>)"

text \<open>
  The card list when no source has data: fandom answers with an error, dokkanInfo with an
  empty array; the event list is there on dokkanInfo.
\<close>

definition exhaustedEnv :: env where
  "exhaustedEnv =
     plainEnv
       (bareAdapter\<lparr>getLatestCards :=
          (\<lambda>n. \<lparr>outcome = Inl (JsError ''Fandom API error: 500''), elapsed = 120\<rparr>)\<rparr>)
       (bareAdapter\<lparr>getLatestCards :=
          (\<lambda>n. \<lparr>outcome = Inr (Some (RawArray [])), elapsed = 80\<rparr>),
        getEvents :=
          (\<lambda>n. \<lparr>outcome =
                   Inr (Some (RawArray [JObj [(''title'', JStr ''Dokkan Festival'')]])),
                 elapsed = 80\<rparr>)\<rparr>)"

text \<open>
  Missions, a data type without a parser: fandom lists it among its data types, both
  sources answer the sample request with an empty array, and dokkanInfo has one mission.
\<close>

definition discoveryEnv :: env where
  "discoveryEnv =
     plainEnv
       (bareAdapter\<lparr>getSample :=
          (\<lambda>t k n. \<lparr>outcome = Inr (Some (RawArray [])), elapsed = 50\<rparr>),
        getAvailableDataTypes :=
          (\<lambda>n. \<lparr>outcome = Inr [''missions''], elapsed = 50\<rparr>)\<rparr>)
       (bareAdapter\<lparr>getSample :=
          (\<lambda>t k n. \<lparr>outcome = Inr (Some (RawArray [])), elapsed = 50\<rparr>),
        getMissions :=
          (\<lambda>n. \<lparr>outcome = Inr (Some (RawArray [JObj [(''title'', JStr ''Daily'')]])),
                 elapsed = 80\<rparr>)\<rparr>)"

text \<open>
  Samples for rescoring: for events both sources answer with an empty array; for cards
  fandom answers with one record whose version is the string \<open>beta\<close> and dokkanInfo with an
  empty array.
\<close>

definition sampleEnv :: env where
  "sampleEnv =
     plainEnv
       (bareAdapter\<lparr>getSample :=
          (\<lambda>t k n. if t = ''cards''
                    then \<lparr>outcome = Inr (Some (RawArray [JObj [(''version'', JStr ''beta'')]])),
                          elapsed = 50\<rparr>
                    else \<lparr>outcome = Inr (Some (RawArray [])), elapsed = 50\<rparr>)\<rparr>)
       (bareAdapter\<lparr>getSample :=
          (\<lambda>t k n. \<lparr>outcome = Inr (Some (RawArray [])), elapsed = 50\<rparr>)\<rparr>)"

text \<open>
  Samples when fandom has no \<open>getSample\<close> method and dokkanInfo answers with one record of
  version 1; and the two adapters without any of the data methods.
\<close>

definition partialEnv :: env where
  "partialEnv =
     plainEnv bareAdapter
       (bareAdapter\<lparr>getSample :=
          (\<lambda>t k n. \<lparr>outcome = Inr (Some (RawArray [JObj [(''version'', JNum (Fin 1))]])),
                     elapsed = 50\<rparr>)\<rparr>)"

definition bareEnv :: env where
  "bareEnv = plainEnv bareAdapter bareAdapter"

text \<open>A parser whose only transformation always throws, and two raw records for it.\<close>

definition throwingParsers :: parsers_t where
  "throwingParsers =
     \<lparr>default = \<lparr>requiredFields = [], transformations = []\<rparr>,
      byType =
        [''cards'' \<mapsto>
           \<lparr>requiredFields = [''name'', ''id''],
            transformations = [(''atk'', \<lambda>now value. Inl (JsError ''boom''))]\<rparr>]\<rparr>"

definition twoRawCards :: "record_t list" where
  "twoRawCards = [[(''atk'', JStr ''high''), (''extra'', JNull)], []]"

text \<open>A parser that requires a field named like a method of \<open>Object.prototype\<close>.\<close>

definition inheritedNameParsers :: parsers_t where
  "inheritedNameParsers =
     \<lparr>default = \<lparr>requiredFields = [], transformations = []\<rparr>,
      byType =
        [''cards'' \<mapsto>
           \<lparr>requiredFields = [''constructor'', ''zzz''], transformations = []\<rparr>]\<rparr>"

text \<open>Four sample records: \<open>name\<close> in all four, \<open>atk\<close> in three, \<open>hp\<close> in two.\<close>

definition fourSamples :: "record_t list" where
  "fourSamples =
     [[(''name'', JStr ''A''), (''atk'', JNum (Fin 1)), (''hp'', JNum (Fin 5))],
      [(''name'', JStr ''B''), (''atk'', JNum (Fin 2))],
      [(''name'', JStr ''C''), (''atk'', JNum (Fin 3)), (''hp'', JUndefined)],
      [(''name'', JStr ''D''), (''hp'', JNum (Fin 7))]]"

text \<open>A cache directory without files, and a \<open>JSON.parse\<close> that rejects its input.\<close>

definition emptyDisk :: file_system where
  "emptyDisk = \<lparr>files = Map.empty, readFault = (\<lambda>p. None)\<rparr>"

definition corruptDisk :: file_system where
  "corruptDisk =
     \<lparr>files = [''/app/data/cache/cards.json'' \<mapsto> ''{oops''], readFault = (\<lambda>p. None)\<rparr>"

definition rejectingParse :: "string \<Rightarrow> js_error + jsval" where
  "rejectingParse content = Inl (JsError ''Unexpected token'')"

definition appManager :: data_manager where
  "appManager = \<lparr>basePath = ''/app'', cachePath = ''/app/data/cache''\<rparr>"

text \<open>Four sample records of which the first alone has a field named \<open>constructor\<close>.\<close>

definition inheritedNameSamples :: "record_t list" where
  "inheritedNameSamples =
     [[(''constructor'', JStr ''x''), (''a'', JNum (Fin 1))],
      [(''a'', JNum (Fin 1))],
      [(''a'', JNum (Fin 1))],
      [(''a'', JNum (Fin 1))]]"

text \<open>One sample record with a field named \<open>__proto__\<close>, as \<open>JSON.parse\<close> may build it.\<close>

definition protoSamples :: "record_t list" where
  "protoSamples = [[(''__proto__'', JNum (Fin 1))]]"

section \<open>Evaluation rules for the sample runs\<close>

lemmas run_defs =
  getLatestCardsFromBestSource_def getEventsFromBestSource_def
  getDataFromPrioritizedSources_def cardsFetchFn_def
  newWikiUpdater_def fallbackEnv_def exhaustedEnv_def sampleEnv_def partialEnv_def bareEnv_def
  nullItemEnv_def discoveryEnv_def
  plainEnv_def bareAdapter_def notAFunction_def
  staticWikiSources_def staticDataTypes_def staticParsers_def respectRateLimit_def Let_def
  parseData_def parsersLookup_def parserOf_def hasParser_def parseItem_def
  getDefaultValueForField_def defaults_def
  readOf_def assignOwn_def objectPrototype_def prototypeMethods_def
  tryCatch_def keys_def


section \<open>Properties of the parser engine\<close>

lemma map_of_setProp: "map_of (setProp r k v) = (map_of r)(k \<mapsto> v)"
  by (induction r) (auto simp: fun_eq_iff)

lemma readOf_setProp: "readOf (setProp r k v) k' = (if k' = k then v else readOf r k')"
  by (simp add: readOf_def map_of_setProp)

lemma keys_setProp: "set (keys (setProp r k v)) = insert k (set (keys r))"
  by (induction r) (force simp: keys_def)+

lemma assignOwn_setProp: "k \<noteq> ''__proto__'' \<Longrightarrow> assignOwn r k v = setProp r k v"
  by (simp add: assignOwn_def)

lemma assignOwn_undefined: "readOf r k = JUndefined \<Longrightarrow> assignOwn r k v = setProp r k v"
  by (auto simp add: assignOwn_def readOf_def objectPrototype_def prototypeMethods_def
        split: option.splits)

lemma proto_inherited: "objectPrototype ''__proto__'' = JObj []"
  by (simp add: objectPrototype_def prototypeMethods_def)

lemma readOf_own:
  "objectPrototype k = JUndefined \<Longrightarrow> readOf r k \<noteq> JUndefined \<Longrightarrow> k \<in> set (keys r)"
  by (force simp add: readOf_def keys_def split: option.splits dest!: map_of_SomeD)

lemma getDefaultValueForField_defined: "getDefaultValueForField now field \<noteq> JUndefined"
  by (simp add: getDefaultValueForField_def)

lemma fillRequired_object:
  "\<exists>r'. fillRequired env now fs (JObj r) = Inr (JObj r') \<and>
         set (keys r) \<subseteq> set (keys r') \<and>
         (\<forall>f. readOf r' f =
                (if f \<in> set fs \<and> readOf r f = JUndefined then getDefaultValueForField now f
                 else readOf r f))"
proof (induction fs arbitrary: r)
  case Nil
  then show ?case by simp
next
  case (Cons a fs)
  show ?case
  proof (cases "readOf r a = JUndefined")
    case True
    let ?r = "setProp r a (getDefaultValueForField now a)"
    have s: "fillRequired env now (a # fs) (JObj r) = fillRequired env now fs (JObj ?r)"
      using True by (simp add: assignOwn_undefined)
    from Cons.IH [of ?r] obtain r' where r': "fillRequired env now fs (JObj ?r) = Inr (JObj r')"
      "set (keys ?r) \<subseteq> set (keys r')"
      "\<forall>f. readOf r' f =
            (if f \<in> set fs \<and> readOf ?r f = JUndefined then getDefaultValueForField now f
             else readOf ?r f)" by blast
    have k: "set (keys r) \<subseteq> set (keys r')" using r'(2) by (auto simp add: keys_setProp)
    have "readOf r' f =
            (if f \<in> set (a # fs) \<and> readOf r f = JUndefined then getDefaultValueForField now f
             else readOf r f)" for f
      using r'(3) True by (auto simp add: readOf_setProp getDefaultValueForField_defined)
    then show ?thesis using s r'(1) k by auto
  next
    case False
    then have s: "fillRequired env now (a # fs) (JObj r) = fillRequired env now fs (JObj r)"
      by simp
    from Cons.IH [of r] show ?thesis using s False by auto
  qed
qed

lemma fillRequired_required_key:
  assumes "fillRequired env now fs (JObj r) = Inr (JObj r')"
    and "f \<in> set fs" and "objectPrototype f = JUndefined"
  shows "f \<in> set (keys r')"
proof -
  from fillRequired_object [of env now fs r] assms(1)
  have v: "readOf r' f =
            (if f \<in> set fs \<and> readOf r f = JUndefined then getDefaultValueForField now f
             else readOf r f)" by auto
  have "readOf r' f \<noteq> JUndefined"
    using v assms(2) getDefaultValueForField_defined [of now f] by auto
  then show ?thesis using assms(3) by (rule readOf_own [rotated])
qed

lemma applyTransformations_object:
  assumes "''__proto__'' \<notin> fst ` set ts"
  shows "\<exists>r'. applyTransformations env now ts (JObj r) = Inr (JObj r') \<and>
           set (keys r) \<subseteq> set (keys r') \<and>
           (\<forall>f. f \<notin> fst ` set ts \<longrightarrow> readOf r' f = readOf r f) \<and>
           (distinct (map fst ts) \<longrightarrow>
              (\<forall>f. readOf r' f = transformedValue now (map_of ts f) (readOf r f)))"
  using assms
proof (induction ts arbitrary: r)
  case Nil
  then show ?case by (simp add: transformedValue_def)
next
  case (Cons p ts)
  obtain field transform where p: "p = (field, transform)" by (cases p)
  from Cons.prems p have np: "field \<noteq> ''__proto__''" and nts: "''__proto__'' \<notin> fst ` set ts"
    by auto
  define r1 where "r1 =
    (if readOf r field = JUndefined then r
     else (case transform now (readOf r field) of Inl e \<Rightarrow> r | Inr v \<Rightarrow> setProp r field v))"
  have s: "applyTransformations env now (p # ts) (JObj r) =
             applyTransformations env now ts (JObj r1)"
    using p np by (auto simp add: r1_def tryCatch_def assignOwn_setProp split: sum.splits)
  have k1: "set (keys r) \<subseteq> set (keys r1)"
    by (auto simp add: r1_def keys_setProp split: sum.splits)
  have o1: "readOf r1 f = readOf r f" if "f \<noteq> field" for f
    using that by (auto simp add: r1_def readOf_setProp split: sum.splits)
  have v1: "readOf r1 field = transformedValue now (Some transform) (readOf r field)"
    by (auto simp add: r1_def readOf_setProp transformedValue_def split: sum.splits)
  from Cons.IH [OF nts, of r1] obtain r' where r':
    "applyTransformations env now ts (JObj r1) = Inr (JObj r')"
    "set (keys r1) \<subseteq> set (keys r')"
    "\<forall>f. f \<notin> fst ` set ts \<longrightarrow> readOf r' f = readOf r1 f"
    "distinct (map fst ts) \<longrightarrow>
       (\<forall>f. readOf r' f = transformedValue now (map_of ts f) (readOf r1 f))" by blast
  have a: "\<forall>f. f \<notin> fst ` set (p # ts) \<longrightarrow> readOf r' f = readOf r f"
    using r'(3) o1 p by auto
  have b: "readOf r' f = transformedValue now (map_of (p # ts) f) (readOf r f)"
    if d: "distinct (map fst (p # ts))" for f
  proof (cases "f = field")
    case True
    have "field \<notin> fst ` set ts" using d p by auto
    then have "readOf r' field = readOf r1 field" using r'(3) by blast
    then show ?thesis using True v1 p by simp
  next
    case False
    have "readOf r' f = transformedValue now (map_of ts f) (readOf r1 f)"
      using r'(4) d by simp
    then show ?thesis using False o1 p by simp
  qed
  show ?case using s r'(1,2) k1 a b by (intro exI [of _ r']) auto
qed

lemma parseItem_object:
  assumes "distinct (map fst (transformations p))"
    and "\<forall>f \<in> set (requiredFields p) \<union> fst ` set (transformations p).
           objectPrototype f = JUndefined"
  shows "\<exists>y. parseItem env now p (JObj x) = Inr (JObj y) \<and>
           set (requiredFields p) \<subseteq> set (keys y) \<and>
           (\<forall>f. readOf y f = parsedField now p x f)"
proof -
  from fillRequired_object [of env now "requiredFields p" x] obtain r1 where r1:
    "fillRequired env now (requiredFields p) (JObj x) = Inr (JObj r1)"
    "\<forall>f. readOf r1 f = filledField now p x f"
    by (auto simp add: filledField_def)
  have np: "''__proto__'' \<notin> fst ` set (transformations p)"
    using assms(2) proto_inherited by force
  from applyTransformations_object [OF np, of env now r1] assms(1) obtain y where y:
    "applyTransformations env now (transformations p) (JObj r1) = Inr (JObj y)"
    "set (keys r1) \<subseteq> set (keys y)"
    "\<forall>f. readOf y f = transformedValue now (map_of (transformations p) f) (readOf r1 f)"
    by blast
  have "set (requiredFields p) \<subseteq> set (keys r1)"
    using fillRequired_required_key [OF r1(1)] assms(2) by blast
  then have k: "set (requiredFields p) \<subseteq> set (keys y)" using y(2) by blast
  have "parseItem env now p (JObj x) = Inr (JObj y)"
    using r1(1) y(1) by (simp add: parseItem_def)
  then show ?thesis using k y(3) r1(2) by (simp add: parsedField_def)
qed

lemma mapItems_objects:
  assumes "\<And>x. \<exists>y. f (JObj x) = Inr (JObj y) \<and> P x y"
  shows "\<exists>ys. mapItems f (map JObj xs) = Inr (map JObj ys) \<and> length ys = length xs \<and>
           (\<forall>i < length xs. P (xs ! i) (ys ! i))"
proof (induction xs)
  case Nil
  then show ?case by simp
next
  case (Cons x xs)
  from assms obtain y where y: "f (JObj x) = Inr (JObj y)" "P x y" by blast
  from Cons obtain ys where ys: "mapItems f (map JObj xs) = Inr (map JObj ys)"
    "length ys = length xs" "\<forall>i < length xs. P (xs ! i) (ys ! i)" by blast
  have "\<forall>i < length (x # xs). P ((x # xs) ! i) ((y # ys) ! i)"
    using y(2) ys(3) by (auto simp: nth_Cons split: nat.splits)
  then show ?case using y(1) ys(1,2) by (intro exI [of _ "y # ys"]) simp
qed



text \<open>
  Claim C5 as stated fails on the code. A batch with the record \<open>null\<close> in it makes
  \<open>parseData\<close> throw, although its first record is fine: \<open>item[field]\<close> throws on
  \<open>null\<close>, and nothing in \<open>parseData\<close> catches it. And a required field named
  \<open>constructor\<close> is not added to the empty object, which inherits a member of that name.
\<close>

theorem parseData_null_record_counterexample:
  "isl (parseData bareEnv (staticParsers bareEnv) 0 ''cards''
          (RawArray [JObj [(''name'', JStr ''X'')], JNull]) ''fandom'') \<and>
   parseData bareEnv inheritedNameParsers 0 ''cards'' (RawArray [JObj []]) ''fandom'' =
     Inr [JObj [(''zzz'', JStr [])]]"
  by (simp add: run_defs inheritedNameParsers_def)

text \<open>
  Claim C5, amended. Let the raw records be plain objects, and let no required field and no
  field with a transformation bear the name of a member of \<open>Object.prototype\<close>; the keys of
  the transformation table are unique, as the keys of an object are. Then \<open>parseData\<close>
  returns without throwing, also when every transformation throws, one output record per
  input record, in the same order. Every required field is a key of the output record, and
  every field of it reads as the specification describes: the default where a required
  field was missing, the transformed value where a transformation applies and succeeds,
  the value before the transformation where it throws, the raw value otherwise.
\<close>

theorem parseData_total_on_objects:
  assumes "dataArray rawData = map JObj records"
    and "parserConfig = parserOf ps dataType"
    and "distinct (map fst (transformations parserConfig))"
    and "\<forall>f \<in> set (requiredFields parserConfig) \<union> fst ` set (transformations parserConfig).
           objectPrototype f = JUndefined"
  shows "\<exists>out. parseData env ps now dataType rawData source = Inr (map JObj out) \<and>
           length out = length records \<and>
           (\<forall>i < length records.
              set (requiredFields parserConfig) \<subseteq> set (keys (out ! i)) \<and>
              (\<forall>f. readOf (out ! i) f = parsedField now parserConfig (records ! i) f))"
proof -
  let ?g = "parseItem env now parserConfig"
  let ?P = "\<lambda>x y. set (requiredFields parserConfig) \<subseteq> set (keys y) \<and>
                  (\<forall>f. readOf y f = parsedField now parserConfig x f)"
  have "\<And>x. \<exists>y. ?g (JObj x) = Inr (JObj y) \<and> ?P x y"
    using parseItem_object [OF assms(3,4)] by blast
  then have "\<exists>ys. mapItems ?g (map JObj records) = Inr (map JObj ys) \<and>
                  length ys = length records \<and> (\<forall>i < length records. ?P (records ! i) (ys ! i))"
    by (rule mapItems_objects)
  then show ?thesis using assms(1,2) by (simp add: parseData_def)
qed

text \<open>
  C5, amended, at a parser whose transformation always throws, on a record with an extra
  field and an empty record.
\<close>

theorem parseData_total_on_objects_witness:
  "\<exists>out. parseData bareEnv throwingParsers 0 ''cards'' (RawArray (map JObj twoRawCards))
            ''fandom'' = Inr (map JObj out) \<and>
         length out = 2 \<and>
         readOf (out ! 0) ''atk'' = JStr ''high'' \<and> readOf (out ! 0) ''extra'' = JNull \<and>
         readOf (out ! 0) ''name'' = JStr ''Unknown'' \<and>
         readOf (out ! 1) ''id'' = JStr ''0'' \<and> ''name'' \<in> set (keys (out ! 1))"
proof -
  let ?p = "\<lparr>requiredFields = [''name'', ''id''],
             transformations = [(''atk'', \<lambda>now value. Inl (JsError ''boom''))]\<rparr>"
  have h1: "dataArray (RawArray (map JObj twoRawCards)) = map JObj twoRawCards" by simp
  have h2: "?p = parserOf throwingParsers ''cards''"
    by (simp add: throwingParsers_def parsersLookup_def parserOf_def)
  have h3: "distinct (map fst (transformations ?p))" by simp
  have h4: "\<forall>f \<in> set (requiredFields ?p) \<union> fst ` set (transformations ?p).
              objectPrototype f = JUndefined"
    by (simp add: objectPrototype_def prototypeMethods_def)
  from parseData_total_on_objects [OF h1 h2 h3 h4, of bareEnv 0 "''fandom''"]
  obtain out where o:
    "parseData bareEnv throwingParsers 0 ''cards'' (RawArray (map JObj twoRawCards)) ''fandom''
       = Inr (map JObj out)"
    "length out = length twoRawCards"
    "\<forall>i < length twoRawCards. set (requiredFields ?p) \<subseteq> set (keys (out ! i)) \<and>
        (\<forall>f. readOf (out ! i) f = parsedField 0 ?p (twoRawCards ! i) f)"
    by blast
  have l: "length out = 2" using o(2) by (simp add: twoRawCards_def)
  have "readOf (out ! 0) ''atk'' = JStr ''high''" "readOf (out ! 0) ''extra'' = JNull"
       "readOf (out ! 0) ''name'' = JStr ''Unknown''" "readOf (out ! 1) ''id'' = JStr ''0''"
       "''name'' \<in> set (keys (out ! 1))"
    using o(3)
    by (simp_all add: twoRawCards_def parsedField_def filledField_def transformedValue_def
          getDefaultValueForField_def defaults_def readOf_def objectPrototype_def
          prototypeMethods_def)
  then show ?thesis using o(1) l by blast
qed

section \<open>Properties of the prioritized fetch\<close>

lemma respectRateLimit_fields [simp]:
  "calls (respectRateLimit env s w) = calls w"
  "parsers (respectRateLimit env s w) = parsers w"
  "lastRequestTime (respectRateLimit env s w) = lastRequestTime w"
  "sourcePriorities (respectRateLimit env s w) = sourcePriorities w"
  "dataTypes (respectRateLimit env s w) = dataTypes w"
  "cache (respectRateLimit env s w) = cache w"
  by (simp_all add: respectRateLimit_def Let_def split: option.splits)

lemma respectRateLimit_clock: "clock w \<le> clock (respectRateLimit env s w)"
  by (simp add: respectRateLimit_def Let_def split: option.splits)

lemma trySources_failed_step:
  assumes "failedAttempt (outcome (fetchFn p (length (calls w))))"
  shows "\<exists>w2. trySources env dt fetchFn (p # rest) lastError w =
           trySources env dt fetchFn rest
             (lastThrown lastError [outcome (fetchFn p (length (calls w)))]) w2 \<and>
           calls w2 = calls w @ [Fetch dt p] \<and> parsers w2 = parsers w \<and>
           sourcePriorities w2 = sourcePriorities w \<and> cache w2 = cache w \<and>
           dataTypes w2 = dataTypes w \<and> clock w \<le> clock w2"
proof -
  let ?w1 = "respectRateLimit env p w"
  let ?r = "fetchFn p (length (calls w))"
  let ?w2 = "?w1\<lparr>calls := calls ?w1 @ [Fetch dt p], clock := clock ?w1 + int (elapsed ?r)\<rparr>"
  let ?w3 = "?w2\<lparr>lastRequestTime := (lastRequestTime ?w2)(p \<mapsto> clock ?w2)\<rparr>"
  have c: "clock w \<le> clock ?w2" "clock w \<le> clock ?w3"
    using respectRateLimit_clock [of w env p] by simp_all
  show ?thesis
  proof (cases "outcome ?r")
    case (Inl e)
    then have "trySources env dt fetchFn (p # rest) lastError w =
                 trySources env dt fetchFn rest (lastThrown lastError [outcome ?r]) ?w2"
      by (simp add: Let_def)
    then show ?thesis using c(1) by (intro exI [of _ ?w2]) simp
  next
    case (Inr rawData)
    have "rawData = None \<or> (\<exists>raw. rawData = Some raw \<and> (falsy raw \<or> isEmptyArray raw))"
      using assms Inr by (cases rawData) (simp_all add: failedAttempt_def)
    then have "trySources env dt fetchFn (p # rest) lastError w =
                 trySources env dt fetchFn rest (lastThrown lastError [outcome ?r]) ?w3"
      using Inr by (auto simp add: Let_def)
    then show ?thesis using c(2) by (intro exI [of _ ?w3]) simp
  qed
qed

lemma trySources_rejected_step:
  assumes "rejectedAttempt env (parsers w) dt p (outcome (fetchFn p (length (calls w))))"
  shows "\<exists>w2 lastError'. trySources env dt fetchFn (p # rest) lastError w =
           trySources env dt fetchFn rest lastError' w2 \<and>
           calls w2 = calls w @ [Fetch dt p] \<and> parsers w2 = parsers w"
proof (cases "failedAttempt (outcome (fetchFn p (length (calls w))))")
  case True
  from trySources_failed_step [of fetchFn p w env dt rest lastError] True
  show ?thesis by blast
next
  case False
  let ?w1 = "respectRateLimit env p w"
  let ?r = "fetchFn p (length (calls w))"
  let ?w2 = "?w1\<lparr>calls := calls ?w1 @ [Fetch dt p], clock := clock ?w1 + int (elapsed ?r)\<rparr>"
  let ?w3 = "?w2\<lparr>lastRequestTime := (lastRequestTime ?w2)(p \<mapsto> clock ?w2)\<rparr>"
  from False obtain raw where raw: "outcome ?r = Inr (Some raw)" "\<not> falsy raw"
    "\<not> isEmptyArray raw"
    by (auto simp add: failedAttempt_def split: sum.splits option.splits)
  then have "parseThrows env (parsers w) dt raw p"
    using assms by (simp add: rejectedAttempt_def)
  then obtain e where e: "parseData env (parsers w) (clock ?w3) dt raw p = Inl e"
    unfolding parseThrows_def by (metis isl_def)
  have "trySources env dt fetchFn (p # rest) lastError w =
          trySources env dt fetchFn rest (Some e) ?w3"
    using raw e by (simp add: Let_def)
  then show ?thesis by (intro exI [of _ ?w3] exI [of _ "Some e"]) simp
qed

lemma trySources_success_step:
  assumes "outcome (fetchFn s (length (calls w))) = Inr (Some raw)"
    and "\<not> falsy raw" and "\<not> isEmptyArray raw"
    and "parseReturns env (parsers w) dt raw s"
  shows "\<exists>w' parsed. trySources env dt fetchFn (s # post) lastError w =
           (Inr \<lparr>items = parsed, sourceTag = s, fetchTime = clock w'\<rparr>, w') \<and>
           parseData env (parsers w) (clock w') dt raw s = Inr parsed \<and>
           calls w' = calls w @ [Fetch dt s] \<and>
           lastRequestTime w' s = Some (clock w')"
proof -
  let ?w1 = "respectRateLimit env s w"
  let ?r = "fetchFn s (length (calls w))"
  let ?w2 = "?w1\<lparr>calls := calls ?w1 @ [Fetch dt s], clock := clock ?w1 + int (elapsed ?r)\<rparr>"
  let ?w3 = "?w2\<lparr>lastRequestTime := (lastRequestTime ?w2)(s \<mapsto> clock ?w2)\<rparr>"
  have "\<not> isl (parseData env (parsers w) (clock ?w3) dt raw s)"
    using assms(4) unfolding parseReturns_def by blast
  then obtain parsed where p: "parseData env (parsers w) (clock ?w3) dt raw s = Inr parsed"
    by (cases "parseData env (parsers w) (clock ?w3) dt raw s") auto
  have "trySources env dt fetchFn (s # post) lastError w =
          (Inr \<lparr>items = parsed, sourceTag = s, fetchTime = clock ?w3\<rparr>, ?w3)"
    using assms(1,2,3) p by (simp add: Let_def)
  moreover have "calls ?w3 = calls w @ [Fetch dt s]" by simp
  moreover have "lastRequestTime ?w3 s = Some (clock ?w3)" by simp
  ultimately show ?thesis using p by blast
qed

lemma trySources_first_success:
  assumes "allRejected env (parsers w) dt fetchFn (length (calls w)) pre"
    and "outcome (fetchFn s (length (calls w) + length pre)) = Inr (Some raw)"
    and "\<not> falsy raw" and "\<not> isEmptyArray raw"
    and "parseReturns env (parsers w) dt raw s"
  shows "\<exists>w' parsed. trySources env dt fetchFn (pre @ s # post) lastError w =
           (Inr \<lparr>items = parsed, sourceTag = s, fetchTime = clock w'\<rparr>, w') \<and>
           parseData env (parsers w) (clock w') dt raw s = Inr parsed \<and>
           calls w' = calls w @ map (Fetch dt) (pre @ [s])"
  using assms
proof (induction pre arbitrary: w lastError)
  case Nil
  then show ?case
    using trySources_success_step [of fetchFn s w raw env dt post lastError] by auto
next
  case (Cons p pre)
  from Cons.prems(1)
  have f: "rejectedAttempt env (parsers w) dt p (outcome (fetchFn p (length (calls w))))"
    and r: "allRejected env (parsers w) dt fetchFn (Suc (length (calls w))) pre" by auto
  from trySources_rejected_step [of env w dt p fetchFn "pre @ s # post" lastError] f
  obtain w2 le where w2:
    "trySources env dt fetchFn (p # pre @ s # post) lastError w =
       trySources env dt fetchFn (pre @ s # post) le w2"
    "calls w2 = calls w @ [Fetch dt p]" "parsers w2 = parsers w" by blast
  have l: "length (calls w2) = Suc (length (calls w))" using w2(2) by simp
  have "\<exists>w' parsed. trySources env dt fetchFn (pre @ s # post) le w2 =
           (Inr \<lparr>items = parsed, sourceTag = s, fetchTime = clock w'\<rparr>, w') \<and>
           parseData env (parsers w2) (clock w') dt raw s = Inr parsed \<and>
           calls w' = calls w2 @ map (Fetch dt) (pre @ [s])"
    using Cons.IH [of w2 le] r Cons.prems(2,3,4,5) l w2(3) by simp
  then show ?case using w2 by auto
qed

lemma trySources_all_failed:
  assumes "list_all failedAttempt (attempts fetchFn (length (calls w)) ps)"
  shows "\<exists>w'. trySources env dt fetchFn ps lastError w =
           (Inl (exhaustedError dt
                   (lastThrown lastError (attempts fetchFn (length (calls w)) ps))), w') \<and>
           calls w' = calls w @ map (Fetch dt) ps \<and> cache w' = cache w"
  using assms
proof (induction ps arbitrary: w lastError)
  case Nil
  then show ?case by (simp add: exhaustedError_def split: option.splits)
next
  case (Cons p ps)
  from Cons.prems have f: "failedAttempt (outcome (fetchFn p (length (calls w))))"
    and r: "list_all failedAttempt (attempts fetchFn (Suc (length (calls w))) ps)" by auto
  from trySources_failed_step [of fetchFn p w env dt ps lastError] f
  obtain w2 where w2:
    "trySources env dt fetchFn (p # ps) lastError w =
       trySources env dt fetchFn ps
         (lastThrown lastError [outcome (fetchFn p (length (calls w)))]) w2"
    "calls w2 = calls w @ [Fetch dt p]" "cache w2 = cache w" by auto
  have l: "length (calls w2) = Suc (length (calls w))" using w2(2) by simp
  have e: "lastThrown (lastThrown lastError [outcome (fetchFn p (length (calls w)))]) xs =
           lastThrown lastError (outcome (fetchFn p (length (calls w))) # xs)" for xs
    by (cases "outcome (fetchFn p (length (calls w)))") simp_all
  show ?case
    using Cons.IH [of w2 "lastThrown lastError [outcome (fetchFn p (length (calls w)))]"] r l w2 e
    by auto
qed

text \<open>
  Claim C1 as stated fails on the code. In the run below fandom's fetch neither throws nor
  yields an empty or falsy result: it answers with the array \<open>[null]\<close>. The result is
  nevertheless the parsed data of dokkanInfo, which is asked as well: \<open>parseData\<close> throws on
  fandom's data inside the \<open>try\<close> block, and the \<open>catch\<close> goes on to the next source.
\<close>

theorem parse_failure_falls_through_counterexample:
  "outcome (cardsFetchFn nullItemEnv ''fandom'' 0) = Inr (Some (RawArray [JNull])) \<and>
   fst (getLatestCardsFromBestSource nullItemEnv (newWikiUpdater nullItemEnv 5000)) =
     Inr \<lparr>items = [JObj [(''name'', JStr ''X''), (''id'', JStr ''0''),
                           (''type'', JStr ''Unknown''), (''rarity'', JStr ''N'')]],
          sourceTag = ''dokkanInfo'', fetchTime = 5200\<rparr> \<and>
   calls (snd (getLatestCardsFromBestSource nullItemEnv (newWikiUpdater nullItemEnv 5000))) =
     [Fetch ''cards'' ''fandom'', Fetch ''cards'' ''dokkanInfo'']"
  by (simp add: run_defs)

text \<open>
  Claim C1, amended. Let the priority list of a data type be \<open>pre @ s # post\<close>, let every
  attempt on a source of \<open>pre\<close> be rejected (the fetch throws, or yields a falsy or empty
  result, or yields data on which \<open>parseData\<close> throws), and let the fetch from \<open>s\<close> return
  data that is not falsy, not empty and that \<open>parseData\<close> accepts. Then
  \<open>getDataFromPrioritizedSources\<close> returns the parsed data of \<open>s\<close>, stamped with \<open>s\<close> and
  with the time after that fetch, and the requests it made are those to \<open>pre\<close> and then to
  \<open>s\<close>, in this order: no source of \<open>post\<close> is asked.
\<close>

theorem first_accepted_source_wins:
  assumes "sourcePriorities w dataType = Some (pre @ s # post)"
    and "allRejected env (parsers w) dataType fetchFn (length (calls w)) pre"
    and "outcome (fetchFn s (length (calls w) + length pre)) = Inr (Some raw)"
    and "\<not> falsy raw" and "\<not> isEmptyArray raw"
    and "parseReturns env (parsers w) dataType raw s"
  shows "\<exists>w' parsed. getDataFromPrioritizedSources env dataType fetchFn w =
           (Inr \<lparr>items = parsed, sourceTag = s, fetchTime = clock w'\<rparr>, w') \<and>
           parseData env (parsers w) (clock w') dataType raw s = Inr parsed \<and>
           calls w' = calls w @ map (Fetch dataType) (pre @ [s])"
  using trySources_first_success [OF assms(2,3,4,5,6), of post None] assms(1)
  by (simp add: getDataFromPrioritizedSources_def)

text \<open>
  C1, amended, where fandom answers with \<open>[null]\<close> and dokkanInfo with one record.
\<close>

theorem first_accepted_source_wins_witness:
  "allRejected nullItemEnv (staticParsers nullItemEnv) ''cards'' (cardsFetchFn nullItemEnv) 0
     [''fandom''] \<and>
   parseReturns nullItemEnv (staticParsers nullItemEnv) ''cards''
     (RawArray [JObj [(''name'', JStr ''X'')]]) ''dokkanInfo'' \<and>
   (\<exists>w' parsed.
      getDataFromPrioritizedSources nullItemEnv ''cards'' (cardsFetchFn nullItemEnv)
        (newWikiUpdater nullItemEnv 5000) =
        (Inr \<lparr>items = parsed, sourceTag = ''dokkanInfo'', fetchTime = clock w'\<rparr>, w') \<and>
      parseData nullItemEnv (staticParsers nullItemEnv) (clock w') ''cards''
        (RawArray [JObj [(''name'', JStr ''X'')]]) ''dokkanInfo'' = Inr parsed \<and>
      calls w' = [Fetch ''cards'' ''fandom'', Fetch ''cards'' ''dokkanInfo''])"
proof -
  let ?w = "newWikiUpdater nullItemEnv 5000"
  let ?raw = "RawArray [JObj [(''name'', JStr ''X'')]]"
  have c: "calls ?w = []" "parsers ?w = staticParsers nullItemEnv"
    by (simp_all add: newWikiUpdater_def)
  have h1: "sourcePriorities ?w ''cards'' = Some ([''fandom''] @ ''dokkanInfo'' # [])"
    by (simp add: newWikiUpdater_def)
  have t: "parseThrows nullItemEnv (staticParsers nullItemEnv) ''cards'' (RawArray [JNull])
             ''fandom''"
    by (simp add: parseThrows_def run_defs)
  have a: "allRejected nullItemEnv (staticParsers nullItemEnv) ''cards''
             (cardsFetchFn nullItemEnv) 0 [''fandom'']"
    using t by (simp add: rejectedAttempt_def cardsFetchFn_def nullItemEnv_def plainEnv_def)
  have h2: "allRejected nullItemEnv (parsers ?w) ''cards'' (cardsFetchFn nullItemEnv)
              (length (calls ?w)) [''fandom'']"
    using a c by simp
  have h3: "outcome (cardsFetchFn nullItemEnv ''dokkanInfo''
                       (length (calls ?w) + length [''fandom''])) = Inr (Some ?raw)"
    by (simp add: cardsFetchFn_def nullItemEnv_def plainEnv_def)
  have h4: "\<not> falsy ?raw" and h5: "\<not> isEmptyArray ?raw" by simp_all
  have r: "parseReturns nullItemEnv (staticParsers nullItemEnv) ''cards'' ?raw ''dokkanInfo''"
    by (simp add: parseReturns_def run_defs)
  have h6: "parseReturns nullItemEnv (parsers ?w) ''cards'' ?raw ''dokkanInfo''"
    using r c by simp
  from first_accepted_source_wins [OF h1 h2 h3 h4 h5 h6] a r c show ?thesis by simp
qed

text \<open>
  Claim C2 says that \<open>lastRequestTime[source]\<close> is set to the current time after every
  attempt, also one that throws. In the run below fandom is asked at time 5000 and throws
  at 5120: its \<open>lastRequestTime\<close> is still 0 afterwards, since the assignment follows the
  \<open>await\<close> inside the \<open>try\<close> block. The attempt on dokkanInfo, which returns, is recorded.
\<close>

theorem throwing_fetch_keeps_lastRequestTime:
  "lastRequestTime (newWikiUpdater fallbackEnv 5000) ''fandom'' = Some 0 \<and>
   lastRequestTime (snd (getLatestCardsFromBestSource fallbackEnv
                           (newWikiUpdater fallbackEnv 5000))) ''fandom'' = Some 0 \<and>
   lastRequestTime (snd (getLatestCardsFromBestSource fallbackEnv
                           (newWikiUpdater fallbackEnv 5000))) ''dokkanInfo'' = Some 5200 \<and>
   calls (snd (getLatestCardsFromBestSource fallbackEnv (newWikiUpdater fallbackEnv 5000))) =
     [Fetch ''cards'' ''fandom'', Fetch ''cards'' ''dokkanInfo''] \<and>
   clock (snd (getLatestCardsFromBestSource fallbackEnv (newWikiUpdater fallbackEnv 5000))) = 5200"
  by (simp add: run_defs)

text \<open>
  Claim C4. When every attempt on the sources of a priority list that is not empty fails,
  \<open>getDataFromPrioritizedSources\<close> throws, after asking every source once and in order. The
  error names the data type and carries the message of the last error thrown by an attempt,
  if one was thrown.
\<close>

theorem exhausted_sources_error:
  assumes "sourcePriorities w dataType = Some ps" and "ps \<noteq> []"
    and "list_all failedAttempt (attempts fetchFn (length (calls w)) ps)"
  shows "\<exists>w'. getDataFromPrioritizedSources env dataType fetchFn w =
           (Inl (exhaustedError dataType
                   (lastThrown None (attempts fetchFn (length (calls w)) ps))), w') \<and>
           calls w' = calls w @ map (Fetch dataType) ps"
  using trySources_all_failed [OF assms(3), of env dataType None] assms(1,2)
  by (auto simp add: getDataFromPrioritizedSources_def)

text \<open>
  C4 where fandom throws and dokkanInfo then returns an empty array: the error carries
  fandom's message.
\<close>

theorem exhausted_sources_error_witness:
  "list_all failedAttempt (attempts (cardsFetchFn exhaustedEnv) 0 [''fandom'', ''dokkanInfo'']) \<and>
   (\<exists>w'. getDataFromPrioritizedSources exhaustedEnv ''cards'' (cardsFetchFn exhaustedEnv)
            (newWikiUpdater exhaustedEnv 5000) =
          (Inl (JsError ''Failed to fetch cards from all sources: Fandom API error: 500''), w') \<and>
        calls w' = [Fetch ''cards'' ''fandom'', Fetch ''cards'' ''dokkanInfo''])"
proof -
  let ?w = "newWikiUpdater exhaustedEnv 5000"
  have h1: "sourcePriorities ?w ''cards'' = Some [''fandom'', ''dokkanInfo'']"
    by (simp add: newWikiUpdater_def)
  have h2: "[''fandom'', ''dokkanInfo''] \<noteq> []" by simp
  have c: "calls ?w = []" by (simp add: newWikiUpdater_def)
  have a: "attempts (cardsFetchFn exhaustedEnv) 0 [''fandom'', ''dokkanInfo''] =
             [Inl (JsError ''Fandom API error: 500''), Inr (Some (RawArray []))]"
    by (simp add: run_defs)
  have h3: "list_all failedAttempt
              (attempts (cardsFetchFn exhaustedEnv) (length (calls ?w)) [''fandom'', ''dokkanInfo''])"
    using a c by (simp add: failedAttempt_def)
  from exhausted_sources_error [OF h1 h2 h3, of exhaustedEnv] h3 a c show ?thesis
    by (simp add: exhaustedError_def)
qed

section \<open>Properties of the cache-aware update\<close>














text \<open>
  Claim C3 says that \<open>updateFromWiki\<close> continues past a data type that fails and records a
  result for every type. In the run below the card sources are exhausted and the events are
  there: asked for cards and events, \<open>updateFromWiki\<close> returns \<open>success: false\<close> with the
  message of the exception and no \<open>results\<close>, and never asks for the events; asked for the
  events alone it records them.
\<close>

theorem updateFromWiki_aborts_on_failed_type:
  "fst (updateFromWiki exhaustedEnv (Some [''cards'', ''events''])
          (newWikiUpdater exhaustedEnv 5000)) =
     \<lparr>success = False,
      message_of = ''Failed to fetch cards from all sources: Fandom API error: 500'',
      results_of = None\<rparr> \<and>
   calls (snd (updateFromWiki exhaustedEnv (Some [''cards'', ''events''])
                 (newWikiUpdater exhaustedEnv 5000))) =
     [Types ''fandom'', Types ''dokkanInfo'',
      Fetch ''cards'' ''fandom'', Fetch ''cards'' ''dokkanInfo''] \<and>
   fst (updateFromWiki exhaustedEnv (Some [''events'']) (newWikiUpdater exhaustedEnv 5000)) =
     \<lparr>success = True, message_of = ''Wiki data updated successfully'',
      results_of = Some [(''events'', \<lparr>count = 1, fromCache = False,
                                       resultSource = Some ''dokkanInfo'', errorMsg = None\<rparr>)]\<rparr>"
  by (simp add: run_defs updateFromWiki_def discoverAndCreateParsers_def availableTypes_def
        dedup_def updateDataType_def validCache_def refreshDataType_def fetchFresh_def
        cacheData_def)

section \<open>Properties of the cache store\<close>

text \<open>
  Claim C10. \<open>DataManager.getCachedData\<close> never throws: it returns a value for every key,
  and this value is \<open>null\<close>, which is falsy, when the file cannot be read (it is missing, or
  the read fails) or when its content does not parse.
\<close>

theorem getCachedData_never_throws:
  "(\<exists>v. getCachedData JSON_parse dm fs key = Inr v) \<and>
   ((\<forall>content. readFile fs (path_join (cachePath dm) (key @ ''.json'')) \<noteq> Inr content)
      \<longrightarrow> getCachedData JSON_parse dm fs key = Inr JNull) \<and>
   (\<forall>content error. readFile fs (path_join (cachePath dm) (key @ ''.json'')) = Inr content \<and>
        JSON_parse content = Inl error
      \<longrightarrow> getCachedData JSON_parse dm fs key = Inr JNull) \<and>
   \<not> truthy JNull"
proof -
  let ?read = "readFile fs (path_join (cachePath dm) (key @ ''.json''))"
  have unreadable: "getCachedData JSON_parse dm fs key = Inr JNull" if "?read = Inl e" for e
    using that by (simp add: getCachedData_def tryCatch_def)
  have corrupt: "getCachedData JSON_parse dm fs key = Inr JNull"
    if "?read = Inr content" and "JSON_parse content = Inl e" for content e
    using that by (simp add: getCachedData_def tryCatch_def)
  have parsed: "getCachedData JSON_parse dm fs key = Inr v"
    if "?read = Inr content" and "JSON_parse content = Inr v" for content v
    using that by (simp add: getCachedData_def tryCatch_def)
  have "\<exists>v. getCachedData JSON_parse dm fs key = Inr v"
  proof (cases ?read)
    case (Inl e)
    then show ?thesis using unreadable by blast
  next
    case (Inr content)
    then show ?thesis using corrupt parsed by (cases "JSON_parse content") blast+
  qed
  moreover have "getCachedData JSON_parse dm fs key = Inr JNull"
    if "\<forall>content. ?read \<noteq> Inr content"
    using that unreadable by (cases ?read) auto
  ultimately show ?thesis using corrupt by auto
qed

text \<open>
  C10 for a key without a file and for a file with corrupt content.
\<close>

theorem getCachedData_never_throws_witness:
  "getCachedData rejectingParse appManager emptyDisk ''cards'' = Inr JNull \<and>
   getCachedData rejectingParse appManager corruptDisk ''cards'' = Inr JNull"
proof -
  have m: "\<forall>content. readFile emptyDisk (path_join (cachePath appManager) (''cards'' @ ''.json''))
             \<noteq> Inr content"
    by (simp add: readFile_def emptyDisk_def)
  have c: "readFile corruptDisk (path_join (cachePath appManager) (''cards'' @ ''.json''))
             = Inr ''{oops'' \<and> rejectingParse ''{oops'' = Inl (JsError ''Unexpected token'')"
    by (simp add: readFile_def corruptDisk_def path_join_def appManager_def rejectingParse_def)
  from getCachedData_never_throws [of rejectingParse appManager emptyDisk "''cards''"] m
  have 1: "getCachedData rejectingParse appManager emptyDisk ''cards'' = Inr JNull" by blast
  from getCachedData_never_throws [of rejectingParse appManager corruptDisk "''cards''"] c
  have 2: "getCachedData rejectingParse appManager corruptDisk ''cards'' = Inr JNull" by blast
  from 1 2 show ?thesis by simp
qed

section \<open>Properties of the learned parser\<close>

lemma set_addField: "set (addField fs f) = insert f (set fs)"
  by (auto simp: addField_def)

lemma distinct_addField: "distinct fs \<Longrightarrow> distinct (addField fs f)"
  by (simp add: addField_def)

lemma foldl_addField:
  "set (foldl addField fs xs) = set fs \<union> set xs \<and> (distinct fs \<longrightarrow> distinct (foldl addField fs xs))"
  by (induction xs arbitrary: fs) (auto simp: set_addField distinct_addField)

lemma collect_foldl:
  "set (foldl (\<lambda>allFields item. foldl addField allFields (keys item)) acc xs) =
     set acc \<union> (\<Union>item \<in> set xs. set (keys item)) \<and>
   (distinct acc \<longrightarrow> distinct (foldl (\<lambda>allFields item. foldl addField allFields (keys item)) acc xs))"
proof (induction xs arbitrary: acc)
  case Nil
  then show ?case by simp
next
  case (Cons x xs)
  show ?case
    using Cons.IH [of "foldl addField acc (keys x)"] foldl_addField [of acc "keys x"]
    by auto
qed

lemma collected_set: "set (collected xs) = fieldNames xs"
  using collect_foldl [of "[]" xs] by (simp add: collected_def fieldNames_def)

lemma collected_distinct: "distinct (collected xs)"
  using collect_foldl [of "[]" xs] by (simp add: collected_def)

lemma collectInto_objects:
  "collectInto env acc (map JObj xs) =
     Inr (foldl (\<lambda>allFields item. foldl addField allFields (keys item)) acc xs)"
  by (induction xs arbitrary: acc) simp_all

lemma collectFields_objects: "collectFields env (map JObj xs) = Inr (collected xs)"
  by (simp add: collectFields_def collected_def collectInto_objects)

lemma distinct_setProp: "distinct (map fst (setProp r k v)) = distinct (map fst r)"
proof (induction r)
  case Nil
  then show ?case by simp
next
  case (Cons a r)
  have "fst ` set (setProp r k v) = insert k (fst ` set r)"
    using keys_setProp [of r k v] by (simp add: keys_def)
  then show ?case using Cons by (cases a) auto
qed

lemma distinct_assignOwn: "distinct (map fst (assignOwn r k v)) = distinct (map fst r)"
  by (simp add: assignOwn_def distinct_setProp)

lemma keys_assignOwn: "set (keys (assignOwn r k v)) \<subseteq> insert k (set (keys r))"
  by (auto simp add: assignOwn_def keys_setProp)

lemma map_of_assignOwn:
  "g \<noteq> ''__proto__'' \<Longrightarrow>
   map_of (assignOwn r k v) g = (if g = k then Some v else map_of r g)"
  by (simp add: assignOwn_def map_of_setProp)

lemma initial_counters:
  "distinct (map fst (foldl (\<lambda>cf field. assignOwn cf field (0::nat)) cf fs)) =
     distinct (map fst cf) \<and>
   set (keys (foldl (\<lambda>cf field. assignOwn cf field (0::nat)) cf fs)) \<subseteq> set (keys cf) \<union> set fs \<and>
   (g \<noteq> ''__proto__'' \<longrightarrow>
      map_of (foldl (\<lambda>cf field. assignOwn cf field (0::nat)) cf fs) g =
        (if g \<in> set fs then Some 0 else map_of cf g))"
proof (induction fs arbitrary: cf rule: rev_induct)
  case Nil
  then show ?case by simp
next
  case (snoc a fs)
  let ?c = "foldl (\<lambda>cf field. assignOwn cf field (0::nat)) cf fs"
  have e: "foldl (\<lambda>cf field. assignOwn cf field (0::nat)) cf (fs @ [a]) = assignOwn ?c a 0"
    by simp
  have "set (keys (assignOwn ?c a 0)) \<subseteq> insert a (set (keys ?c))" by (rule keys_assignOwn)
  then have k: "set (keys (assignOwn ?c a 0)) \<subseteq> set (keys cf) \<union> set (fs @ [a])"
    using snoc by auto
  have d: "distinct (map fst (assignOwn ?c a 0)) = distinct (map fst cf)"
    using snoc by (simp add: distinct_assignOwn)
  have m: "g \<noteq> ''__proto__'' \<longrightarrow>
           map_of (assignOwn ?c a 0) g = (if g \<in> set (fs @ [a]) then Some 0 else map_of cf g)"
    using snoc by (auto simp add: map_of_assignOwn)
  show ?case unfolding e using k d m by blast
qed

lemma bump_distinct: "distinct (map fst (bump item cf f)) = distinct (map fst cf)"
  by (simp add: bump_def distinct_assignOwn)

lemma bump_keys: "set (keys (bump item cf f)) \<subseteq> insert f (set (keys cf))"
  using keys_assignOwn [of cf f] by (auto simp add: bump_def)

lemma bump_map_of:
  "g \<noteq> ''__proto__'' \<Longrightarrow>
   map_of (bump item cf f) g =
     (if g = f \<and> readOf item f \<noteq> JUndefined
      then Some (Suc (case map_of cf f of None \<Rightarrow> 0 | Some c \<Rightarrow> c))
      else map_of cf g)"
  by (auto simp add: bump_def map_of_assignOwn)

lemma foldl_bump:
  "distinct fs \<Longrightarrow>
   distinct (map fst (foldl (bump item) cf fs)) = distinct (map fst cf) \<and>
   set (keys (foldl (bump item) cf fs)) \<subseteq> set (keys cf) \<union> set fs \<and>
   (g \<noteq> ''__proto__'' \<longrightarrow>
      map_of (foldl (bump item) cf fs) g =
        (if g \<in> set fs \<and> readOf item g \<noteq> JUndefined
         then Some (Suc (case map_of cf g of None \<Rightarrow> 0 | Some c \<Rightarrow> c))
         else map_of cf g))"
proof (induction fs arbitrary: cf)
  case Nil
  then show ?case by simp
next
  case (Cons a fs)
  have d: "distinct fs" "a \<notin> set fs" using Cons.prems by auto
  from Cons.IH [OF d(1), of "bump item cf a"] show ?case
    using d(2) bump_keys [of item cf a]
    by (auto simp add: bump_distinct bump_map_of)
qed

lemma foldl_samples:
  assumes "distinct fs"
  shows "distinct (map fst (foldl (\<lambda>cf item. foldl (bump item) cf fs) cf xs)) =
           distinct (map fst cf) \<and>
         set (keys (foldl (\<lambda>cf item. foldl (bump item) cf fs) cf xs)) \<subseteq> set (keys cf) \<union> set fs \<and>
         (g \<noteq> ''__proto__'' \<and> g \<in> set fs \<and> map_of cf g = Some c \<longrightarrow>
            map_of (foldl (\<lambda>cf item. foldl (bump item) cf fs) cf xs) g =
              Some (c + length (filter (\<lambda>item. readOf item g \<noteq> JUndefined) xs)))"
proof (induction xs arbitrary: cf c)
  case Nil
  then show ?case by simp
next
  case (Cons x xs)
  let ?cf = "foldl (bump x) cf fs"
  from foldl_bump [OF assms, of x cf g]
  have b: "distinct (map fst ?cf) = distinct (map fst cf)"
    "set (keys ?cf) \<subseteq> set (keys cf) \<union> set fs"
    "g \<noteq> ''__proto__'' \<Longrightarrow> map_of ?cf g =
        (if g \<in> set fs \<and> readOf x g \<noteq> JUndefined
         then Some (Suc (case map_of cf g of None \<Rightarrow> 0 | Some c \<Rightarrow> c))
         else map_of cf g)"
    by auto
  show ?case
  proof (cases "readOf x g \<noteq> JUndefined")
    case True
    from Cons.IH [of ?cf "Suc c"] show ?thesis using b True by auto
  next
    case False
    from Cons.IH [of ?cf c] show ?thesis using b False by auto
  qed
qed

lemma present_readOf:
  "objectPrototype g = JUndefined \<Longrightarrow> (readOf item g \<noteq> JUndefined) = present item g"
  by (simp add: readOf_def present_def split: option.splits)

lemma counted_facts:
  "distinct (map fst (counted xs))"
  "set (keys (counted xs)) \<subseteq> fieldNames xs"
  "objectPrototype g = JUndefined \<Longrightarrow> g \<in> fieldNames xs \<Longrightarrow>
     map_of (counted xs) g = Some (occurrences xs g)"
proof -
  let ?fs = "collected xs"
  let ?init = "foldl (\<lambda>cf field. assignOwn cf field (0::nat)) [] ?fs"
  from initial_counters [of "[]" ?fs g]
  have i: "distinct (map fst ?init)" "set (keys ?init) \<subseteq> set ?fs"
    "g \<noteq> ''__proto__'' \<Longrightarrow> g \<in> set ?fs \<Longrightarrow> map_of ?init g = Some 0"
    by (auto simp add: keys_def)
  from foldl_samples [OF collected_distinct, of xs ?init xs g 0]
  have s: "distinct (map fst (counted xs)) = distinct (map fst ?init)"
    "set (keys (counted xs)) \<subseteq> set (keys ?init) \<union> set ?fs"
    "g \<noteq> ''__proto__'' \<Longrightarrow> g \<in> set ?fs \<Longrightarrow> map_of ?init g = Some 0 \<Longrightarrow>
       map_of (counted xs) g = Some (length (filter (\<lambda>item. readOf item g \<noteq> JUndefined) xs))"
    by (auto simp add: counted_def)
  show "distinct (map fst (counted xs))" using s(1) i(1) by simp
  show "set (keys (counted xs)) \<subseteq> fieldNames xs" using s(2) i(2) collected_set by blast
  show "map_of (counted xs) g = Some (occurrences xs g)"
    if o: "objectPrototype g = JUndefined" and m: "g \<in> fieldNames xs"
  proof -
    have n: "g \<noteq> ''__proto__''" using o proto_inherited by auto
    have "g \<in> set ?fs" using m collected_set by simp
    then have "map_of (counted xs) g =
                 Some (length (filter (\<lambda>item. readOf item g \<noteq> JUndefined) xs))"
      using s(3) i(3) n by simp
    then show ?thesis using o by (simp add: occurrences_def present_readOf)
  qed
qed

lemma countField_object:
  "\<exists>ft'. countField env (JObj item) (cf, ft) f = Inr (bump item cf f, ft')"
  by (simp add: countField_def bump_def)

lemma forEach_countField:
  "\<exists>ft'. forEach (countField env (JObj item)) (cf, ft) fs = Inr (foldl (bump item) cf fs, ft')"
proof (induction fs arbitrary: cf ft)
  case Nil
  then show ?case by simp
next
  case (Cons a fs)
  from countField_object [of env item cf ft a] obtain ft1 where
    "countField env (JObj item) (cf, ft) a = Inr (bump item cf a, ft1)" by blast
  then show ?case using Cons.IH [of "bump item cf a" ft1] by simp
qed

lemma forEach_samples:
  "\<exists>ft'. forEach (\<lambda>st item. forEach (countField env item) st fs) (cf, ft) (map JObj xs) =
           Inr (foldl (\<lambda>cf item. foldl (bump item) cf fs) cf xs, ft')"
proof (induction xs arbitrary: cf ft)
  case Nil
  then show ?case by simp
next
  case (Cons x xs)
  from forEach_countField [of env x cf ft fs] obtain ft1 where
    "forEach (countField env (JObj x)) (cf, ft) fs = Inr (foldl (bump x) cf fs, ft1)" by blast
  then show ?case using Cons.IH [of "foldl (bump x) cf fs" ft1] by simp
qed

lemma learnedParser_objects:
  "\<exists>p. learnedParser env (map JObj xs) = Inr p \<and>
        requiredFields p =
          map fst (filter (\<lambda>(field, n). (of_nat n :: rat) \<ge> of_nat (length xs) * (3 / 4))
                     (counted xs))"
proof -
  from forEach_samples [of env "collected xs"
         "foldl (\<lambda>cf field. assignOwn cf field (0::nat)) [] (collected xs)" "[]" xs]
  obtain ft where "countFields env (collected xs) (map JObj xs) = Inr (counted xs, ft)"
    by (auto simp add: countFields_def counted_def)
  then show ?thesis by (simp add: learnedParser_def collectFields_objects)
qed

lemma threshold_iff:
  "((of_nat c :: rat) \<ge> of_nat n * (3 / 4)) = (75 * n \<le> 100 * c)"
proof -
  have "((of_nat c :: rat) \<ge> of_nat n * (3 / 4)) = ((of_nat (3 * n) :: rat) \<le> of_nat (4 * c))"
    by (simp add: field_simps)
  also have "\<dots> = (3 * n \<le> 4 * c)" by (simp only: of_nat_le_iff)
  finally show ?thesis by auto
qed

lemma occurrences_outside:
  assumes "g \<notin> fieldNames xs"
  shows "occurrences xs g = 0"
proof -
  have "\<not> present item g" if "item \<in> set xs" for item
  proof -
    have "g \<notin> fst ` set item" using assms that by (auto simp add: fieldNames_def keys_def)
    then have "map_of item g = None" by (simp add: map_of_eq_None_iff)
    then show ?thesis by (simp add: present_def)
  qed
  then show ?thesis by (simp add: occurrences_def filter_empty_conv)
qed

lemma required_of_counted:
  assumes "xs \<noteq> []" and "objectPrototype g = JUndefined"
  shows "g \<in> fst ` {e \<in> set (counted xs). 75 * length xs \<le> 100 * snd e} \<longleftrightarrow>
         75 * length xs \<le> 100 * occurrences xs g"
proof (cases "g \<in> fieldNames xs")
  case True
  then have m: "map_of (counted xs) g = Some (occurrences xs g)"
    using counted_facts(3) assms(2) by blast
  have "g \<in> fst ` {e \<in> set (counted xs). 75 * length xs \<le> 100 * snd e} \<longleftrightarrow>
        (\<exists>n. (g, n) \<in> set (counted xs) \<and> 75 * length xs \<le> 100 * n)"
    by force
  also have "\<dots> \<longleftrightarrow> 75 * length xs \<le> 100 * occurrences xs g"
    using m counted_facts(1) [of xs] by (auto dest: map_of_SomeD eq_key_imp_eq_value)
  finally show ?thesis .
next
  case False
  then have "g \<notin> fst ` set (counted xs)"
    using counted_facts(2) [of xs] by (auto simp add: keys_def)
  then have "g \<notin> fst ` {e \<in> set (counted xs). 75 * length xs \<le> 100 * snd e}" by auto
  moreover have "occurrences xs g = 0" using False by (rule occurrences_outside)
  ultimately show ?thesis using assms(1) by (cases xs) auto
qed

text \<open>
  Claim C8 as stated fails on the code. Of the four samples below only the first has a
  field named \<open>constructor\<close>, so the field is present in 25% of them; the learned parser
  requires it all the same, since the second pass tests \<open>item[field] !== undefined\<close>, and
  every object inherits a member of that name. And a field named \<open>__proto__\<close>, which the
  one sample of the second list has, is not required: the counters are kept in a plain
  object, where the assignment of a number to \<open>__proto__\<close> adds no property.
\<close>

theorem inherited_name_required_counterexample:
  "length inheritedNameSamples = 4 \<and>
   occurrences inheritedNameSamples ''constructor'' = 1 \<and>
   \<not> isl (fst (learnParserForNewDataType bareEnv ''skills'' (map JObj inheritedNameSamples)
                  (newWikiUpdater bareEnv 0))) \<and>
   requiredFields (projr (fst (learnParserForNewDataType bareEnv ''skills''
                                 (map JObj inheritedNameSamples) (newWikiUpdater bareEnv 0)))) =
     [''constructor'', ''a''] \<and>
   length protoSamples = 1 \<and>
   occurrences protoSamples ''__proto__'' = 1 \<and>
   \<not> isl (fst (learnParserForNewDataType bareEnv ''skills'' (map JObj protoSamples)
                  (newWikiUpdater bareEnv 0))) \<and>
   requiredFields (projr (fst (learnParserForNewDataType bareEnv ''skills''
                                 (map JObj protoSamples) (newWikiUpdater bareEnv 0)))) = []"
  by (simp add: inheritedNameSamples_def protoSamples_def occurrences_def present_def
        learnParserForNewDataType_def learnedParser_def collectFields_def countFields_def
        countField_def addField_def run_defs)

text \<open>
  Claim C8, amended. For a sample list of plain objects that is not empty and a field whose
  name is not that of a member of \<open>Object.prototype\<close>, the field is among the required
  fields of the learned parser if and only if it is present (the object has it, with a value
  that is not \<open>undefined\<close>) in at least 75% of the samples. The required fields are among
  the field names of the samples.
\<close>

theorem required_iff_three_quarters_present:
  assumes "sampleData = map JObj samples" and "samples \<noteq> []"
    and "objectPrototype field = JUndefined"
  shows "\<exists>p. fst (learnParserForNewDataType env dataType sampleData w) = Inr p \<and>
           (field \<in> set (requiredFields p)
              \<longleftrightarrow> 75 * length samples \<le> 100 * occurrences samples field) \<and>
           set (requiredFields p) \<subseteq> fieldNames samples"
proof -
  from learnedParser_objects [of env samples] obtain p where p:
    "learnedParser env (map JObj samples) = Inr p"
    "requiredFields p =
       map fst (filter (\<lambda>(field, n). (of_nat n :: rat) \<ge> of_nat (length samples) * (3 / 4))
                  (counted samples))" by blast
  have r: "set (requiredFields p) =
             fst ` {e \<in> set (counted samples). 75 * length samples \<le> 100 * snd e}"
    unfolding p(2) by (auto simp add: threshold_iff case_prod_unfold)
  have l: "fst (learnParserForNewDataType env dataType sampleData w) = Inr p"
    using assms(1,2) p(1) by (simp add: learnParserForNewDataType_def)
  have s: "set (requiredFields p) \<subseteq> fieldNames samples"
    using r counted_facts(2) [of samples] by (auto simp add: keys_def)
  show ?thesis
    using l s r required_of_counted [OF assms(2,3)] by auto
qed

text \<open>
  C8, amended, on four samples: \<open>atk\<close>, present in three, is required; \<open>hp\<close>, present in
  two, is not.
\<close>

theorem required_iff_three_quarters_present_witness:
  "fourSamples \<noteq> [] \<and> objectPrototype ''atk'' = JUndefined \<and>
   (\<exists>p. fst (learnParserForNewDataType bareEnv ''skills'' (map JObj fourSamples)
               (newWikiUpdater bareEnv 0)) = Inr p \<and>
        ''atk'' \<in> set (requiredFields p) \<and> ''hp'' \<notin> set (requiredFields p))"
proof -
  have n: "fourSamples \<noteq> []" by (simp add: fourSamples_def)
  have o: "objectPrototype ''atk'' = JUndefined" "objectPrototype ''hp'' = JUndefined"
    by (simp_all add: objectPrototype_def prototypeMethods_def)
  have a: "75 * length fourSamples \<le> 100 * occurrences fourSamples ''atk''"
    by (simp add: fourSamples_def occurrences_def present_def)
  have h: "\<not> 75 * length fourSamples \<le> 100 * occurrences fourSamples ''hp''"
    by (simp add: fourSamples_def occurrences_def present_def)
  from required_iff_three_quarters_present [OF refl n o(1), of bareEnv "''skills''"
         "newWikiUpdater bareEnv 0"] a
       required_iff_three_quarters_present [OF refl n o(2), of bareEnv "''skills''"
         "newWikiUpdater bareEnv 0"] h n o(1)
  show ?thesis by auto
qed

section \<open>Properties of the source priorities\<close>

lemma checkSource_step:
  "\<exists>w'. checkSource env dt (fr, w) s =
          (assignOwn fr s (probeScore env (sampleOutcome env dt s (length (calls w)))), w') \<and>
        calls w' = calls w @ [Sample dt s] \<and> sourcePriorities w' = sourcePriorities w \<and>
        dataTypes w' = dataTypes w \<and> cache w' = cache w \<and> parsers w' = parsers w"
  by (auto simp add: checkSource_def Let_def probeScore_def sampleOutcome_def split: sum.splits)

lemma foldl_checkSource_state:
  "\<exists>fr' w'. foldl (checkSource env dt) (fr, w) ss = (fr', w') \<and>
        calls w' = calls w @ map (Sample dt) ss \<and> sourcePriorities w' = sourcePriorities w \<and>
        dataTypes w' = dataTypes w \<and> cache w' = cache w \<and> parsers w' = parsers w"
proof (induction ss arbitrary: fr w)
  case Nil
  then show ?case by simp
next
  case (Cons s ss)
  from checkSource_step [of env dt fr w s] obtain w1 fr1 where
    s: "checkSource env dt (fr, w) s = (fr1, w1)" "calls w1 = calls w @ [Sample dt s]"
       "sourcePriorities w1 = sourcePriorities w" "dataTypes w1 = dataTypes w"
       "cache w1 = cache w" "parsers w1 = parsers w" by blast
  from Cons.IH [of fr1 w1] show ?case using s by auto
qed






lemma updateTypePriorities_sourcePriorities:
  "sourcePriorities (updateTypePriorities env w dt) = sourcePriorities w \<or>
   (\<exists>ps. ps \<noteq> [] \<and>
      sourcePriorities (updateTypePriorities env w dt) = (sourcePriorities w)(dt \<mapsto> ps))"
proof -
  from foldl_checkSource_state [of env dt "[]" w "keys (wikiSources env)"]
  obtain fr' w' where f: "foldl (checkSource env dt) ([], w) (keys (wikiSources env)) = (fr', w')"
    "sourcePriorities w' = sourcePriorities w" by blast
  then show ?thesis by (auto simp add: updateTypePriorities_def Let_def)
qed


lemma updateSourcePriorities_invariant:
  "sourcePriorities (foldl (updateTypePriorities env) w ts) t = sourcePriorities w t \<or>
   (\<exists>ps. ps \<noteq> [] \<and> sourcePriorities (foldl (updateTypePriorities env) w ts) t = Some ps)"
proof (induction ts arbitrary: w)
  case Nil
  then show ?case by simp
next
  case (Cons a ts)
  have "sourcePriorities (updateTypePriorities env w a) t = sourcePriorities w t \<or>
        (\<exists>ps. ps \<noteq> [] \<and> sourcePriorities (updateTypePriorities env w a) t = Some ps)"
    using updateTypePriorities_sourcePriorities [of env w a] by (cases "t = a") auto
  then show ?case using Cons.IH [of "updateTypePriorities env w a"] by auto
qed

lemma set_setProp_subset: "set (setProp r k v) \<subseteq> insert (k, v) (set r)"
  by (induction r) (auto split: if_splits)

lemma set_assignOwn_subset: "set (assignOwn r k v) \<subseteq> insert (k, v) (set r)"
  using set_setProp_subset [of r k v] by (auto simp add: assignOwn_def)

lemma all_thrown_scores:
  "list_all isl (probes env dt (length (calls w)) ss) \<Longrightarrow>
   \<forall>e \<in> set fr. \<not> scoreGe0 (snd e) \<Longrightarrow>
   \<forall>e \<in> set (fst (foldl (checkSource env dt) (fr, w) ss)). \<not> scoreGe0 (snd e)"
proof (induction ss arbitrary: fr w)
  case Nil
  then show ?case by simp
next
  case (Cons s ss)
  let ?v = "probeScore env (sampleOutcome env dt s (length (calls w)))"
  from checkSource_step [of env dt fr w s] obtain w1 where
    s: "checkSource env dt (fr, w) s = (assignOwn fr s ?v, w1)"
       "calls w1 = calls w @ [Sample dt s]"
    by blast
  have "isl (sampleOutcome env dt s (length (calls w)))" using Cons.prems(1) by simp
  then have v: "?v = Fin (- 1)" by (auto simp add: probeScore_def isl_def)
  have "\<forall>e \<in> set (assignOwn fr s ?v). \<not> scoreGe0 (snd e)"
    using set_assignOwn_subset [of fr s ?v] Cons.prems(2) v by auto
  moreover have "list_all isl (probes env dt (length (calls w1)) ss)"
    using Cons.prems(1) s(2) by simp
  ultimately show ?case using Cons.IH [of w1 "assignOwn fr s ?v"] s(1) by simp
qed

text \<open>
  Claim C9. After \<open>updateSourcePriorities\<close> the priority list of any data type is the one it
  was before or a list that is not empty. And when every sample fetch of the cycle of a data
  type throws, that cycle leaves all priority lists as they were.
\<close>

theorem priorities_never_emptied:
  "(sourcePriorities (updateSourcePriorities env w) t = sourcePriorities w t \<or>
    (\<exists>ps. ps \<noteq> [] \<and> sourcePriorities (updateSourcePriorities env w) t = Some ps)) \<and>
   (list_all isl (probes env dataType (length (calls w)) (keys (wikiSources env))) \<longrightarrow>
      sourcePriorities (updateTypePriorities env w dataType) = sourcePriorities w)"
proof (intro conjI impI)
  show "sourcePriorities (updateSourcePriorities env w) t = sourcePriorities w t \<or>
    (\<exists>ps. ps \<noteq> [] \<and> sourcePriorities (updateSourcePriorities env w) t = Some ps)"
    unfolding updateSourcePriorities_def by (rule updateSourcePriorities_invariant)
next
  assume a: "list_all isl (probes env dataType (length (calls w)) (keys (wikiSources env)))"
  from foldl_checkSource_state [of env dataType "[]" w "keys (wikiSources env)"]
  obtain fr' w' where f:
    "foldl (checkSource env dataType) ([], w) (keys (wikiSources env)) = (fr', w')"
    "sourcePriorities w' = sourcePriorities w" by blast
  have "\<forall>e \<in> set fr'. \<not> scoreGe0 (snd e)"
    using all_thrown_scores [OF a, of "[]"] f(1) by simp
  then have "newPrioritiesOf fr' = []" by (simp add: newPrioritiesOf_def filter_empty_conv)
  then show "sourcePriorities (updateTypePriorities env w dataType) = sourcePriorities w"
    using f by (simp add: updateTypePriorities_def Let_def)
qed

text \<open>
  C9 with adapters that have no \<open>getSample\<close> method.
\<close>

theorem priorities_never_emptied_witness:
  "list_all isl (probes bareEnv ''events'' 0 (keys (wikiSources bareEnv))) \<and>
   sourcePriorities (updateTypePriorities bareEnv (newWikiUpdater bareEnv 5000) ''events'') =
     sourcePriorities (newWikiUpdater bareEnv 5000) \<and>
   sourcePriorities (updateSourcePriorities bareEnv (newWikiUpdater bareEnv 5000)) ''events'' \<noteq>
     Some []"
proof -
  let ?w = "newWikiUpdater bareEnv 5000"
  have c: "calls ?w = []" by (simp add: newWikiUpdater_def)
  have p: "list_all isl (probes bareEnv ''events'' 0 (keys (wikiSources bareEnv)))"
    by (simp add: run_defs sampleOutcome_def)
  have o: "sourcePriorities ?w ''events'' \<noteq> Some []" by (simp add: newWikiUpdater_def)
  from priorities_never_emptied [of bareEnv ?w "''events''" "''events''"] p c o
  show ?thesis by auto
qed









end
